theory Spec2Isabelle
  imports Main "HOL-Library.Sublist"
begin

section \<open>Python strings\<close>

text \<open>
  A Python \<open>str\<close> is a sequence of Unicode code points; it is modelled as a list of
  natural numbers, so that \<open>len\<close>, \<open>strip\<close> and \<open>split\<close> count what Python counts.
  \<open>lit\<close> turns an ASCII literal of the source into such a list; characters of the source
  beyond ASCII are written as their code points.
\<close>

type_synonym pystr = "nat list"

definition lit :: "string \<Rightarrow> pystr" where
  "lit s = map of_char s"

text \<open>\<open>str.isspace\<close> of one code point: the characters \<open>str.strip()\<close> removes.\<close>

definition is_space :: "nat \<Rightarrow> bool" where
  "is_space c \<longleftrightarrow>
     (9 \<le> c \<and> c \<le> 13) \<or> (28 \<le> c \<and> c \<le> 32) \<or> c = 133 \<or> c = 160 \<or> c = 5760 \<or>
     (8192 \<le> c \<and> c \<le> 8202) \<or> c = 8232 \<or> c = 8233 \<or> c = 8239 \<or> c = 8287 \<or> c = 12288"

text \<open>\<open>s.strip()\<close>: leading and trailing whitespace removed.\<close>

definition strip :: "pystr \<Rightarrow> pystr" where
  "strip s = rev (dropWhile is_space (rev (dropWhile is_space s)))"

text \<open>
  \<open>s.split(sep)\<close> is \<open>py_split sep [] s\<close>: the separator is searched from the left,
  occurrences do not overlap, and \<open>cur\<close> holds the piece read so far. (Python raises
  ValueError on an empty separator; the source only splits on the literal \<open>]:\<close>.)
\<close>

function py_split :: "pystr \<Rightarrow> pystr \<Rightarrow> pystr \<Rightarrow> pystr list" where
  "py_split sep cur s =
     (if sep \<noteq> [] \<and> prefix sep s then cur # py_split sep [] (drop (length sep) s)
      else (case s of [] \<Rightarrow> [cur] | c # cs \<Rightarrow> py_split sep (cur @ [c]) cs))"
  by pat_completeness auto
termination
  by (relation "measure (\<lambda>(sep, cur, s). length s)") (auto simp: prefix_def)

declare py_split.simps [simp del]

text \<open>\<open>sep.join(xs)\<close>.\<close>

fun join :: "pystr \<Rightarrow> pystr list \<Rightarrow> pystr" where
  "join sep [] = []"
| "join sep [x] = x"
| "join sep (x # y # ys) = x @ sep @ join sep (y # ys)"

text \<open>\<open>xs[:n]\<close>: a negative bound counts from the end.\<close>

definition slice_to :: "int \<Rightarrow> 'a list \<Rightarrow> 'a list" where
  "slice_to n xs = (if 0 \<le> n then take (nat n) xs else take (length xs - nat (- n)) xs)"

text \<open>\<open>xs[-n:]\<close> for a positive literal \<open>n\<close>: the last \<open>n\<close> elements, all of them when there are fewer.\<close>

definition last_n :: "nat \<Rightarrow> 'a list \<Rightarrow> 'a list" where
  "last_n n xs = drop (length xs - n) xs"

text \<open>\<open>os.path.join\<close> on a POSIX system.\<close>

definition path_join :: "pystr \<Rightarrow> pystr \<Rightarrow> pystr" where
  "path_join a b =
     (if b \<noteq> [] \<and> hd b = 47 then b
      else if a = [] \<or> last a = 47 then a @ b
      else a @ [47] @ b)"

section \<open>The agent configuration\<close>

text \<open>
  One entry of \<open>config['vectorstores']\<close>. The retriever is an external index:
  \<open>retriever vs query\<close> is what \<open>vs['retriever'].get_relevant_documents(query)\<close> does,
  \<open>Inr\<close> the \<open>page_content\<close> of the documents it returns, in rank order, or \<open>Inl (str e)\<close>
  when it raises the exception \<open>e\<close>.
\<close>

record vectorstore =
  title :: pystr
  hash :: pystr
  retriever :: "pystr \<Rightarrow> pystr + pystr list"

record config =
  name :: pystr
  role :: pystr
  style :: pystr
  detail_level :: pystr
  max_tokens :: int
  context_window :: int
  vectorstores :: "vectorstore list"

section \<open>search_documents\<close>

definition sep_mark :: pystr where
  "sep_mark = lit '']:''"

text \<open>The entry \<open>f"[{source}]: {content}"\<close>.\<close>

definition entry :: "pystr \<Rightarrow> pystr \<Rightarrow> pystr" where
  "entry source content = lit ''['' @ source @ lit '']: '' @ content"

definition index_error :: pystr where
  "index_error = lit ''list index out of range''"

text \<open>
  The comprehension \<open>[r.split(']:')[1].strip() for r in results]\<close>. Indexing a split
  with fewer than two pieces raises IndexError, which is the \<open>Inl\<close> branch.
\<close>

fun seen_texts :: "pystr list \<Rightarrow> pystr + pystr list" where
  "seen_texts [] = Inr []"
| "seen_texts (r # rs) =
     (case py_split sep_mark [] r of
        _ # x # _ \<Rightarrow> (case seen_texts rs of Inl e \<Rightarrow> Inl e | Inr xs \<Rightarrow> Inr (strip x # xs))
      | _ \<Rightarrow> Inl index_error)"

text \<open>The inner loop \<open>for doc in docs\<close>, over the page contents of one index.\<close>

fun add_docs :: "pystr \<Rightarrow> pystr list \<Rightarrow> pystr list \<Rightarrow> pystr + pystr list" where
  "add_docs source [] results = Inr results"
| "add_docs source (doc # docs) results =
     (let content = strip doc in
      case seen_texts results of
        Inl e \<Rightarrow> Inl e
      | Inr seen \<Rightarrow>
          add_docs source docs
            (if content \<notin> set seen then results @ [entry source content] else results))"

text \<open>The outer loop \<open>for vs in config['vectorstores']\<close>.\<close>

fun scan_stores :: "vectorstore list \<Rightarrow> pystr \<Rightarrow> pystr list \<Rightarrow> pystr + pystr list" where
  "scan_stores [] query results = Inr results"
| "scan_stores (vs # rest) query results =
     (case retriever vs query of
        Inl e \<Rightarrow> Inl e
      | Inr docs \<Rightarrow>
          (case add_docs (title vs) docs results of
             Inl e \<Rightarrow> Inl e
           | Inr results' \<Rightarrow> scan_stores rest query results'))"

definition blank_line :: pystr where
  "blank_line = [10, 10]"

text \<open>The sentinel returned when nothing was retrieved (accented letters as code points).\<close>

definition not_found :: pystr where
  "not_found = lit ''No encontr'' @ [233] @ lit '' informaci'' @ [243] @ lit ''n espec'' @ [237]
     @ lit ''fica. '' @ [191] @ lit ''Podr'' @ [237] @ lit ''as reformular la pregunta?''"

definition search_error :: "pystr \<Rightarrow> pystr" where
  "search_error e = lit ''Error al buscar: '' @ e"

text \<open>
  The tool of both pages. One \<open>try\<close> encloses both loops, so any exception raised inside
  (by a retriever, or by the indexing in the comprehension) ends in the \<open>except\<close> branch,
  which returns the diagnostic string.
\<close>

definition search_documents :: "config \<Rightarrow> pystr \<Rightarrow> pystr" where
  "search_documents cfg query =
     (case scan_stores (vectorstores cfg) query [] of
        Inl e \<Rightarrow> search_error e
      | Inr results \<Rightarrow>
          if results \<noteq> [] then join blank_line (slice_to (context_window cfg) results)
          else not_found)"


subsection \<open>The aggregation in the words of the specification\<close>

text \<open>
  The passages of a query in index-then-rank order, each with the title of its index
  and its trimmed text (an index that raises contributes none).
\<close>

definition retrieved :: "vectorstore list \<Rightarrow> pystr \<Rightarrow> (pystr \<times> pystr) list" where
  "retrieved stores query =
     concat (map (\<lambda>vs. case retriever vs query of
                          Inl e \<Rightarrow> []
                        | Inr docs \<Rightarrow> map (\<lambda>doc. (title vs, strip doc)) docs) stores)"

text \<open>
  Section 4.1 of the specification: a passage is rejected if its trimmed text exactly
  matches the text of any passage already accepted, first seen wins. \<open>spec_accept acc ps\<close>
  is the accepted list after the passages \<open>ps\<close>, starting from \<open>acc\<close>.
\<close>

fun spec_accept :: "(pystr \<times> pystr) list \<Rightarrow> (pystr \<times> pystr) list \<Rightarrow> (pystr \<times> pystr) list" where
  "spec_accept acc [] = acc"
| "spec_accept acc ((source, text) # ps) =
     spec_accept (if text \<in> snd ` set acc then acc else acc @ [(source, text)]) ps"

text \<open>
  A string that holds the separator \<open>]:\<close> on which the code splits its entries, and
  the lists of titles and trimmed texts that hold none.
\<close>

definition has_mark :: "pystr \<Rightarrow> bool" where
  "has_mark s \<longleftrightarrow> sublist sep_mark s"

definition clean :: "(pystr \<times> pystr) list \<Rightarrow> bool" where
  "clean ps \<longleftrightarrow> (\<forall>(source, text) \<in> set ps. \<not> has_mark source \<and> \<not> has_mark text \<and> strip text = text)"


section \<open>The session files\<close>

text \<open>
  One message of the conversation: the dictionary with the keys \<open>role\<close>, \<open>content\<close> and
  \<open>timestamp\<close> that both pages build, in this order.
\<close>

record turn =
  msg_role :: pystr
  msg_content :: pystr
  msg_timestamp :: pystr

subsection \<open>The file system\<close>

text \<open>
  A path names a regular file, with its bytes, or a directory. Relative paths start at
  the working directory, which exists, as the root does. Paths are compared as the strings
  the program builds: two spellings of one file are two entries. Limits of the operating
  system (permissions, the length of a name, free space) are not modelled.
\<close>

datatype node = File "nat list" | Dir

type_synonym files = "pystr \<rightharpoonup> node"

text \<open>\<open>os.path.dirname\<close>: the path up to its last slash, without trailing slashes.\<close>

definition dirname :: "pystr \<Rightarrow> pystr" where
  "dirname p =
     (let head = rev (dropWhile (\<lambda>c. c \<noteq> 47) (rev p))
      in if head \<noteq> [] \<and> (\<exists>c \<in> set head. c \<noteq> 47)
         then rev (dropWhile (\<lambda>c. c = 47) (rev head))
         else head)"

text \<open>The directory part \<open>d\<close> of a path names an existing directory.\<close>

definition dir_exists :: "files \<Rightarrow> pystr \<Rightarrow> bool" where
  "dir_exists fs d \<longleftrightarrow> d = [] \<or> (\<forall>c \<in> set d. c = 47) \<or> fs d = Some Dir"

definition is_file :: "files \<Rightarrow> pystr \<Rightarrow> bool" where
  "is_file fs p = (case fs p of Some (File bytes) \<Rightarrow> True | _ \<Rightarrow> False)"

definition path_encode_error :: pystr where
  "path_encode_error = lit ''utf-8 codec cannot encode character: surrogates not allowed''"

definition null_byte_error :: pystr where
  "null_byte_error = lit ''embedded null byte''"

definition file_exists_error :: pystr where
  "file_exists_error = lit ''[Errno 17] File exists''"

definition file_not_found_error :: pystr where
  "file_not_found_error = lit ''[Errno 2] No such file or directory''"

definition not_a_directory_error :: pystr where
  "not_a_directory_error = lit ''[Errno 20] Not a directory''"

definition is_a_directory_error :: pystr where
  "is_a_directory_error = lit ''[Errno 21] Is a directory''"

text \<open>The error of a call whose path lies in \<open>d\<close>, when \<open>d\<close> is no directory.\<close>

definition missing_directory :: "files \<Rightarrow> pystr \<Rightarrow> pystr" where
  "missing_directory fs d = (if is_file fs d then not_a_directory_error else file_not_found_error)"

text \<open>
  What any call raises on a path that is no file name at all: the file system encoding
  (UTF-8 with \<open>surrogateescape\<close>) refuses the surrogates outside \<open>DC80..DCFF\<close>
  (UnicodeEncodeError), and a path cannot hold the NUL character (ValueError).
\<close>

definition path_error :: "pystr \<Rightarrow> pystr option" where
  "path_error p =
     (if \<exists>c \<in> set p. 55296 \<le> c \<and> c \<le> 57343 \<and> \<not> (56448 \<le> c \<and> c \<le> 56575)
      then Some path_encode_error
      else if 0 \<in> set p then Some null_byte_error
      else None)"

text \<open>\<open>os.path.exists\<close>: false also where the path itself is refused.\<close>

definition exists_path :: "files \<Rightarrow> pystr \<Rightarrow> bool" where
  "exists_path fs p \<longleftrightarrow> path_error p = None \<and> fs p \<noteq> None"

text \<open>\<open>os.mkdir\<close>: the exception raised, if any, and the files afterwards.\<close>

definition mkdir :: "pystr \<Rightarrow> files \<Rightarrow> pystr option \<times> files" where
  "mkdir p fs =
     (if fs p \<noteq> None then (Some file_exists_error, fs)
      else if dir_exists fs (dirname p) then (None, fs(p \<mapsto> Dir))
      else (Some (missing_directory fs (dirname p)), fs))"

text \<open>The directory of the session files, \<open>os.path.join("data", "chat_history")\<close>.\<close>

definition chat_history_dir :: pystr where
  "chat_history_dir = path_join (lit ''data'') (lit ''chat_history'')"

text \<open>
  \<open>os.makedirs(os.path.join("data", "chat_history"), exist_ok=True)\<close>: the parent is made
  first when nothing exists under its name; an error of making the leaf is ignored when
  the leaf is a directory already.
\<close>

definition makedirs_chat_history :: "files \<Rightarrow> pystr option \<times> files" where
  "makedirs_chat_history fs =
     (let head = lit ''data'';
          name = chat_history_dir;
          fs1 = (if fs head = None then snd (mkdir head fs) else fs)
      in case mkdir name fs1 of
           (None, fs2) \<Rightarrow> (None, fs2)
         | (Some e, fs2) \<Rightarrow> if fs1 name = Some Dir then (None, fs1) else (Some e, fs1))"

text \<open>
  \<open>open(path, 'w', ...)\<close>: the exception it raises, \<open>None\<close> when the file is opened (and
  by that created or emptied).
\<close>

definition open_for_writing :: "pystr \<Rightarrow> files \<Rightarrow> pystr option" where
  "open_for_writing p fs =
     (case path_error p of
        Some e \<Rightarrow> Some e
      | None \<Rightarrow>
          if fs p = Some Dir then Some is_a_directory_error
          else if dir_exists fs (dirname p) then None
          else Some (missing_directory fs (dirname p)))"

subsection \<open>The text codec of \<open>open(path, encoding='utf-8')\<close>\<close>

text \<open>
  The bytes of one code point. The codec refuses the surrogates \<open>D800..DFFF\<close>
  (UnicodeEncodeError); a Python string holds no code point above \<open>10FFFF\<close>.
\<close>

definition utf8_char :: "nat \<Rightarrow> nat list option" where
  "utf8_char c =
     (if c < 128 then Some [c]
      else if c < 2048 then Some [192 + c div 64, 128 + c mod 64]
      else if 55296 \<le> c \<and> c \<le> 57343 then None
      else if c < 65536 then Some [224 + c div 4096, 128 + (c div 64) mod 64, 128 + c mod 64]
      else if c < 1114112 then
        Some [240 + c div 262144, 128 + (c div 4096) mod 64, 128 + (c div 64) mod 64,
              128 + c mod 64]
      else None)"

definition encode_error :: pystr where
  "encode_error = lit ''utf-8 codec cannot encode character: surrogates not allowed''"

fun utf8_encode :: "pystr \<Rightarrow> nat list option" where
  "utf8_encode [] = Some []"
| "utf8_encode (c # s) =
     (case utf8_char c of
        None \<Rightarrow> None
      | Some bs \<Rightarrow> (case utf8_encode s of None \<Rightarrow> None | Some rest \<Rightarrow> Some (bs @ rest)))"

definition continuation :: "nat \<Rightarrow> bool" where
  "continuation b \<longleftrightarrow> 128 \<le> b \<and> b < 192"

text \<open>
  Strict decoding: a truncated sequence, a stray or missing continuation byte, an overlong
  form, a surrogate and a value above \<open>10FFFF\<close> are all errors (UnicodeDecodeError).
\<close>

fun utf8_decode :: "nat list \<Rightarrow> pystr option" where
  "utf8_decode [] = Some []"
| "utf8_decode (b # bs) =
     (if b < 128 then map_option ((#) b) (utf8_decode bs)
      else if 194 \<le> b \<and> b < 224 then
        (case bs of
           b1 # r \<Rightarrow>
             if continuation b1
             then map_option ((#) ((b - 192) * 64 + (b1 - 128))) (utf8_decode r)
             else None
         | _ \<Rightarrow> None)
      else if 224 \<le> b \<and> b < 240 then
        (case bs of
           b1 # b2 # r \<Rightarrow>
             (let c = (b - 224) * 4096 + (b1 - 128) * 64 + (b2 - 128) in
              if continuation b1 \<and> continuation b2 \<and> 2048 \<le> c
                 \<and> \<not> (55296 \<le> c \<and> c \<le> 57343)
              then map_option ((#) c) (utf8_decode r)
              else None)
         | _ \<Rightarrow> None)
      else if 240 \<le> b \<and> b < 245 then
        (case bs of
           b1 # b2 # b3 # r \<Rightarrow>
             (let c = (b - 240) * 262144 + (b1 - 128) * 4096 + (b2 - 128) * 64 + (b3 - 128) in
              if continuation b1 \<and> continuation b2 \<and> continuation b3 \<and> 65536 \<le> c
                 \<and> c < 1114112
              then map_option ((#) c) (utf8_decode r)
              else None)
         | _ \<Rightarrow> None)
      else None)"

text \<open>
  Reading in text mode translates the line endings \<open>\r\n\<close> and \<open>\r\<close> to \<open>\n\<close>
  (universal newlines); writing leaves \<open>\n\<close> as it is (a POSIX system).
\<close>

fun universal_newlines :: "pystr \<Rightarrow> pystr" where
  "universal_newlines [] = []"
| "universal_newlines [c] = (if c = 13 then [10] else [c])"
| "universal_newlines (c # d # s) =
     (if c = 13 \<and> d = 10 then 10 # universal_newlines s
      else if c = 13 then 10 # universal_newlines (d # s)
      else c # universal_newlines (d # s))"

subsection \<open>\<open>json.dump(messages, f, ensure_ascii=False, indent=2)\<close>\<close>

definition hex_digit :: "nat \<Rightarrow> nat" where
  "hex_digit d = (if d < 10 then 48 + d else 87 + d)"

text \<open>
  The encoder's escapes with \<open>ensure_ascii=False\<close>: the quote, the backslash and the
  control characters below 32 are escaped, every other code point is written as it is.
\<close>

definition escape_char :: "nat \<Rightarrow> pystr" where
  "escape_char c =
     (if c = 34 then [92, 34]
      else if c = 92 then [92, 92]
      else if c = 10 then [92, 110]
      else if c = 13 then [92, 114]
      else if c = 9 then [92, 116]
      else if c = 8 then [92, 98]
      else if c = 12 then [92, 102]
      else if c < 32 then [92, 117, 48, 48, hex_digit (c div 16), hex_digit (c mod 16)]
      else [c])"

definition json_string :: "pystr \<Rightarrow> pystr" where
  "json_string s = [34] @ concat (map escape_char s) @ [34]"



text \<open>The separator of the elements: a comma, then the next line at indent 2.\<close>

definition item_sep :: pystr where
  "item_sep = lit '','' @ [10] @ lit ''  ''"


text \<open>
  \<open>json.dump\<close> does not build that text: it writes it piece by piece, one
  \<open>fp.write(chunk)\<close> for each chunk of the encoder. The chunks of one message, and of the
  whole list.
\<close>

definition turn_chunks :: "turn \<Rightarrow> pystr list" where
  "turn_chunks t =
     [lit ''{'', [10] @ lit ''    '',
      json_string (lit ''role''), lit '': '', json_string (msg_role t),
      lit '','' @ [10] @ lit ''    '',
      json_string (lit ''content''), lit '': '', json_string (msg_content t),
      lit '','' @ [10] @ lit ''    '',
      json_string (lit ''timestamp''), lit '': '', json_string (msg_timestamp t),
      [10] @ lit ''  '', lit ''}'']"

definition iterencode :: "turn list \<Rightarrow> pystr list" where
  "iterencode ts =
     (case ts of
        [] \<Rightarrow> [lit ''[]'']
      | t # rest \<Rightarrow>
          [lit ''['' @ [10] @ lit ''  ''] @ turn_chunks t
          @ concat (map (\<lambda>u. item_sep # turn_chunks u) rest)
          @ [[10], lit '']''])"

text \<open>
  The text file encodes each chunk as it is written. A chunk that cannot be encoded
  raises and is not written; the chunks before it are, and stay in the file when it is
  closed. \<open>out\<close> holds the bytes written so far.
\<close>

fun write_chunks :: "pystr list \<Rightarrow> nat list \<Rightarrow> pystr option \<times> nat list" where
  "write_chunks [] out = (None, out)"
| "write_chunks (chunk # chunks) out =
     (case utf8_encode chunk of
        None \<Rightarrow> (Some encode_error, out)
      | Some bytes \<Rightarrow> write_chunks chunks (out @ bytes))"

subsection \<open>\<open>json.load(f)\<close>\<close>

definition json_ws :: "nat \<Rightarrow> bool" where
  "json_ws c \<longleftrightarrow> c = 32 \<or> c = 9 \<or> c = 10 \<or> c = 13"

definition skip_ws :: "pystr \<Rightarrow> pystr" where
  "skip_ws s = dropWhile json_ws s"

text \<open>The next token, after optional whitespace, must be the character \<open>c\<close>.\<close>

definition expect :: "nat \<Rightarrow> pystr \<Rightarrow> pystr option" where
  "expect c s = (case skip_ws s of [] \<Rightarrow> None | x # r \<Rightarrow> if x = c then Some r else None)"

definition hex_value :: "nat \<Rightarrow> nat option" where
  "hex_value c =
     (if 48 \<le> c \<and> c \<le> 57 then Some (c - 48)
      else if 97 \<le> c \<and> c \<le> 102 then Some (c - 87)
      else if 65 \<le> c \<and> c \<le> 70 then Some (c - 55)
      else None)"

text \<open>The four hexadecimal digits of a \<open>\uXXXX\<close> escape.\<close>

definition hex4 :: "pystr \<Rightarrow> nat option" where
  "hex4 s =
     (case s of
        [a, b, c, d] \<Rightarrow>
          (case (hex_value a, hex_value b, hex_value c, hex_value d) of
             (Some x, Some y, Some z, Some w) \<Rightarrow> Some (((x * 16 + y) * 16 + z) * 16 + w)
           | _ \<Rightarrow> None)
      | _ \<Rightarrow> None)"

definition unescape :: "nat \<Rightarrow> nat option" where
  "unescape e =
     (if e = 34 then Some 34
      else if e = 92 then Some 92
      else if e = 47 then Some 47
      else if e = 98 then Some 8
      else if e = 102 then Some 12
      else if e = 110 then Some 10
      else if e = 114 then Some 13
      else if e = 116 then Some 9
      else None)"

text \<open>
  The string scanner, called after the opening quote: the text read so far, then the
  input. It returns the string and the input after the closing quote. A raw control
  character, an unknown escape and an unterminated string are errors (JSONDecodeError);
  a high surrogate escape followed by a low surrogate escape is one code point.
\<close>

function scan_string :: "pystr \<Rightarrow> pystr \<Rightarrow> (pystr \<times> pystr) option" where
  "scan_string acc [] = None"
| "scan_string acc (c # s) =
     (if c = 34 then Some (acc, s)
      else if c = 92 then
        (case s of
           [] \<Rightarrow> None
         | e # s' \<Rightarrow>
             if e = 117 then
               (case hex4 (take 4 s') of
                  None \<Rightarrow> None
                | Some u \<Rightarrow>
                    if 55296 \<le> u \<and> u \<le> 56319 \<and> take 2 (drop 4 s') = [92, 117] then
                      (case hex4 (take 4 (drop 6 s')) of
                         None \<Rightarrow> None
                       | Some v \<Rightarrow>
                           if 56320 \<le> v \<and> v \<le> 57343
                           then scan_string
                                  (acc @ [65536 + ((u - 55296) * 1024 + (v - 56320))])
                                  (drop 10 s')
                           else scan_string (acc @ [u]) (drop 4 s'))
                    else scan_string (acc @ [u]) (drop 4 s'))
             else (case unescape e of
                     None \<Rightarrow> None
                   | Some x \<Rightarrow> scan_string (acc @ [x]) s'))
      else if c < 32 then None
      else scan_string (acc @ [c]) s)"
  by pat_completeness auto
termination
  by (relation "measure (\<lambda>(acc, s). length s)") auto

declare scan_string.simps [simp del]

text \<open>
  The decoder is modelled on the documents that hold messages: an array of objects whose
  members are the strings \<open>role\<close>, \<open>content\<close> and \<open>timestamp\<close>, with whitespace where JSON
  allows it. On any other input the result is \<open>None\<close>: there \<open>json.load\<close> either raises
  JSONDecodeError or returns a value that is not a list of messages.
\<close>

definition scan_member :: "pystr \<Rightarrow> pystr \<Rightarrow> (pystr \<times> pystr) option" where
  "scan_member key s =
     (case expect 34 s of
        None \<Rightarrow> None
      | Some r \<Rightarrow>
          (case scan_string [] r of
             None \<Rightarrow> None
           | Some (k, r1) \<Rightarrow>
               if k \<noteq> key then None
               else (case expect 58 r1 of
                       None \<Rightarrow> None
                     | Some r2 \<Rightarrow>
                         (case expect 34 r2 of
                            None \<Rightarrow> None
                          | Some r3 \<Rightarrow> scan_string [] r3))))"

definition scan_turn :: "pystr \<Rightarrow> (turn \<times> pystr) option" where
  "scan_turn s =
     (case expect 123 s of None \<Rightarrow> None | Some r0 \<Rightarrow>
      case scan_member (lit ''role'') r0 of None \<Rightarrow> None | Some (r, r1) \<Rightarrow>
      case expect 44 r1 of None \<Rightarrow> None | Some r2 \<Rightarrow>
      case scan_member (lit ''content'') r2 of None \<Rightarrow> None | Some (c, r3) \<Rightarrow>
      case expect 44 r3 of None \<Rightarrow> None | Some r4 \<Rightarrow>
      case scan_member (lit ''timestamp'') r4 of None \<Rightarrow> None | Some (t, r5) \<Rightarrow>
      case expect 125 r5 of None \<Rightarrow> None | Some r6 \<Rightarrow>
      Some (\<lparr>msg_role = r, msg_content = c, msg_timestamp = t\<rparr>, r6))"

text \<open>
  The elements of a non-empty array, up to the closing bracket. The loop is bounded by
  the input: \<open>n\<close> is the number of characters that may still be read, and every element
  uses at least one.
\<close>

fun scan_turns :: "nat \<Rightarrow> pystr \<Rightarrow> (turn list \<times> pystr) option" where
  "scan_turns 0 s = None"
| "scan_turns (Suc n) s =
     (case scan_turn s of
        None \<Rightarrow> None
      | Some (t, r) \<Rightarrow>
          (case skip_ws r of
             [] \<Rightarrow> None
           | c # r' \<Rightarrow>
               if c = 93 then Some ([t], r')
               else if c = 44 then
                 (case scan_turns n r' of
                    None \<Rightarrow> None
                  | Some (ts, r'') \<Rightarrow> Some (t # ts, r''))
               else None))"

definition json_loads :: "pystr \<Rightarrow> turn list option" where
  "json_loads s =
     (case expect 91 s of
        None \<Rightarrow> None
      | Some r \<Rightarrow>
          (case skip_ws r of
             [] \<Rightarrow> None
           | c # r' \<Rightarrow>
               if c = 93 then (if skip_ws r' = [] then Some [] else None)
               else (case scan_turns (length r) r of
                       None \<Rightarrow> None
                     | Some (ts, r'') \<Rightarrow> if skip_ws r'' = [] then Some ts else None)))"

subsection \<open>Text that the codec can encode\<close>



definition plain :: "nat \<Rightarrow> bool" where
  "plain x \<longleftrightarrow> x = 10 \<or> (32 \<le> x \<and> x < 128)"

subsection \<open>load_agent_history and save_agent_history\<close>

definition history_path :: "pystr \<Rightarrow> pystr" where
  "history_path agent_id = path_join chat_history_dir (agent_id @ lit ''.json'')"

definition decode_error :: pystr where
  "decode_error = lit ''the history file cannot be decoded''"

text \<open>
  Where nothing exists under the path the history is empty. An existing file is read,
  decoded and parsed; \<open>Inl\<close> is the exception this raises (its message abbreviated).
\<close>

definition load_agent_history :: "pystr \<Rightarrow> files \<Rightarrow> pystr + turn list" where
  "load_agent_history agent_id fs =
     (let path = history_path agent_id
      in if exists_path fs path then
           (case fs path of
              Some (File bytes) \<Rightarrow>
                (case utf8_decode bytes of
                   None \<Rightarrow> Inl decode_error
                 | Some text \<Rightarrow>
                     (case json_loads (universal_newlines text) of
                        None \<Rightarrow> Inl decode_error
                      | Some ts \<Rightarrow> Inr ts))
            | _ \<Rightarrow> Inl is_a_directory_error)
         else Inr [])"

text \<open>
  The directory is made, the file is opened with mode \<open>w\<close>, so that it is replaced as a
  whole, and the chunks are written. The result is the exception raised, if any, and the
  files afterwards: when the writing fails the file holds the chunks written before.
\<close>

definition save_agent_history :: "pystr \<Rightarrow> turn list \<Rightarrow> files \<Rightarrow> pystr option \<times> files" where
  "save_agent_history agent_id messages fs =
     (case makedirs_chat_history fs of
        (Some e, fs1) \<Rightarrow> (Some e, fs1)
      | (None, fs1) \<Rightarrow>
          (let path = history_path agent_id
           in case open_for_writing path fs1 of
                Some e \<Rightarrow> (Some e, fs1)
              | None \<Rightarrow>
                  (let (exn, bytes) = write_chunks (iterencode messages) []
                   in (exn, fs1(path \<mapsto> File bytes)))))"


section \<open>The document pager\<close>

record page_record =
  page_num :: nat
  content :: pystr
  preview :: pystr

text \<open>The record of the page with index \<open>i\<close> (from 0) and text \<open>text\<close>.\<close>

definition page_of :: "nat \<Rightarrow> pystr \<Rightarrow> page_record" where
  "page_of i text =
     (let c = strip text in
      \<lparr>page_num = i + 1, content = c,
       preview = (if length c > 100 then take 100 c @ lit ''...'' else c)\<rparr>)"

definition extract_error :: "pystr \<Rightarrow> pystr" where
  "extract_error e = lit ''Error al extraer contenido del PDF: '' @ e"

text \<open>
  \<open>extract_pdf_content\<close>, given what the document reader (an external library) does on
  the path: \<open>Inr\<close> the text of each page in order, or \<open>Inl (str e)\<close> when opening or
  reading raises. The result is the page records and the diagnostic shown, if any.
\<close>

definition extract_pdf_content :: "pystr + pystr list \<Rightarrow> page_record list \<times> pystr option" where
  "extract_pdf_content doc =
     (case doc of
        Inl e \<Rightarrow> ([], Some (extract_error e))
      | Inr texts \<Rightarrow> (map (\<lambda>(i, text). page_of i text) (enumerate 0 texts), None))"

text \<open>What one run of the script finds outside: which paths exist, and the reader.\<close>

record doc_env =
  path_exists :: "pystr \<Rightarrow> bool"
  read_pdf :: "pystr \<Rightarrow> pystr + pystr list"

datatype view = Unavailable | NoContent | Pages "page_record list"

definition view_of :: "page_record list \<Rightarrow> view" where
  "view_of pages = (if pages = [] then NoContent else Pages pages)"

text \<open>
  \<open>display_content_viewer\<close>. The cache is the part of \<open>st.session_state\<close> under the keys
  \<open>pdf_content_<path>\<close>, as a map from the path. The result is what is displayed, the
  cache afterwards, and the number of calls of \<open>extract_pdf_content\<close> made.
\<close>

definition display_content_viewer ::
  "doc_env \<Rightarrow> pystr \<Rightarrow> (pystr \<rightharpoonup> page_record list)
     \<Rightarrow> view \<times> (pystr \<rightharpoonup> page_record list) \<times> nat" where
  "display_content_viewer env pdf_path cache =
     (if pdf_path = [] \<or> \<not> path_exists env pdf_path then (Unavailable, cache, 0)
      else (case cache pdf_path of
              None \<Rightarrow>
                (let pages = fst (extract_pdf_content (read_pdf env pdf_path))
                 in (view_of pages, cache(pdf_path \<mapsto> pages), 1))
            | Some pages \<Rightarrow> (view_of pages, cache, 0)))"

text \<open>
  A sequence of calls of the viewer within one session, each with the environment it
  finds: the cache afterwards, and the number of extractions made for the path \<open>p\<close>.
\<close>

fun lookups ::
  "(doc_env \<times> pystr) list \<Rightarrow> (pystr \<rightharpoonup> page_record list) \<Rightarrow> (pystr \<rightharpoonup> page_record list)" where
  "lookups [] cache = cache"
| "lookups ((env, path) # rest) cache =
     lookups rest (fst (snd (display_content_viewer env path cache)))"

fun extractions ::
  "pystr \<Rightarrow> (doc_env \<times> pystr) list \<Rightarrow> (pystr \<rightharpoonup> page_record list) \<Rightarrow> nat" where
  "extractions p [] cache = 0"
| "extractions p ((env, path) # rest) cache =
     (if path = p then snd (snd (display_content_viewer env path cache)) else 0)
     + extractions p rest (fst (snd (display_content_viewer env path cache)))"

text \<open>The path of the document of one index, as \<open>get_document_info\<close> builds it.\<close>

definition document_path :: "vectorstore \<Rightarrow> pystr" where
  "document_path vs =
     path_join (path_join (lit ''processed_docs'') (hash vs)) (hash vs @ lit ''.pdf'')"

definition get_document_info :: "vectorstore list \<Rightarrow> (pystr \<times> pystr \<times> pystr) list" where
  "get_document_info stores = map (\<lambda>vs. (title vs, document_path vs, hash vs)) stores"

section \<open>The session\<close>

text \<open>
  The agent held in \<open>st.session_state.agent\<close>, as far as the pages can tell it apart: its
  conversation memory, the inputs and outputs of the runs that completed.
\<close>

datatype prompt = ChatPrompt pystr | DocPrompt pystr pystr

record agent_state =
  memory :: "(prompt \<times> pystr) list"

text \<open>
  The state that outlives one run of a page: the keys \<open>messages\<close>, \<open>agent\<close> and
  \<open>pdf_content_...\<close> of \<open>st.session_state\<close> (\<open>None\<close>: the key is absent), and the files.
\<close>

record world =
  messages :: "turn list option"
  agent :: "agent_state option"
  pdf_content :: "pystr \<rightharpoonup> page_record list"
  files :: files

text \<open>
  What one run of a page receives from outside: the day (\<open>%Y%m%d\<close>) and the three
  readings of the clock, whether constructing the model and the agent raises, and
  what \<open>agent.run\<close> does on the prompt of this run (\<open>Inl (str e)\<close>: it raises \<open>e\<close>).
\<close>

record run_env =
  today :: pystr
  now_welcome :: pystr
  now_user :: pystr
  now_reply :: pystr
  build :: "pystr option"
  run :: "pystr + pystr"

text \<open>
  What one run shows: the messages rendered by \<open>show_chat_message\<close>, the answer
  rendered by \<open>st.markdown\<close>, the messages of \<open>st.error\<close>, and the exception that ended
  the run, if one escaped.
\<close>

record page_out =
  shown :: "turn list"
  reply :: "pystr option"
  errors :: "pystr list"
  raised :: "pystr option"

definition get_agent_id :: "config \<Rightarrow> pystr \<Rightarrow> pystr" where
  "get_agent_id cfg day = lit ''agent_'' @ name cfg @ lit ''_'' @ day"

definition greeting :: "config \<Rightarrow> pystr" where
  "greeting cfg = [161] @ lit ''Hola! Soy '' @ name cfg @ lit '', tu '' @ role cfg @ lit ''.''"

definition chat_welcome :: "config \<Rightarrow> pystr \<Rightarrow> turn" where
  "chat_welcome cfg now =
     \<lparr>msg_role = lit ''assistant'',
      msg_content = greeting cfg @ [10] @ replicate 16 32
        @ lit ''Estoy aqu'' @ [237] @ lit '' para ayudarte con los documentos que has seleccionado.''
        @ [10] @ replicate 16 32
        @ lit ''Para obtener mejores resultados, por favor s'' @ [233]
        @ lit '' espec'' @ [237] @ lit ''fico en tus preguntas.'',
      msg_timestamp = now\<rparr>"

definition doc_welcome :: "config \<Rightarrow> pystr \<Rightarrow> turn" where
  "doc_welcome cfg now =
     \<lparr>msg_role = lit ''assistant'',
      msg_content = greeting cfg @ [10] @ replicate 20 32
        @ lit ''Estoy aqu'' @ [237] @ lit '' para ayudarte con el material que est'' @ [225]
        @ lit ''s revisando.'' @ [10] @ replicate 20 32
        @ lit ''Puedes preguntarme cualquier cosa sobre el documento.'',
      msg_timestamp = now\<rparr>"

text \<open>\<open>if "messages" not in st.session_state\<close>: the log with which the run goes on.\<close>

definition init_messages :: "turn \<Rightarrow> world \<Rightarrow> turn list" where
  "init_messages welcome w = (case messages w of None \<Rightarrow> [] @ [welcome] | Some ms \<Rightarrow> ms)"

definition get_recent_history :: "turn list \<Rightarrow> pystr" where
  "get_recent_history ms =
     join [10]
       (map (\<lambda>m. (if msg_role m = lit ''user'' then lit ''Human'' else lit ''Assistant'')
                  @ lit '': '' @ msg_content m)
            (if ms \<noteq> [] then last_n 5 ms else []))"

definition error_msg :: "pystr \<Rightarrow> pystr" where
  "error_msg e = [10060] @ lit '' Error: '' @ e"

text \<open>The three messages a query can append, each stamped when it is built.\<close>

definition user_message :: "run_env \<Rightarrow> pystr \<Rightarrow> turn" where
  "user_message env p =
     \<lparr>msg_role = lit ''user'', msg_content = p, msg_timestamp = now_user env\<rparr>"

definition assistant_message :: "run_env \<Rightarrow> pystr \<Rightarrow> turn" where
  "assistant_message env response =
     \<lparr>msg_role = lit ''assistant'', msg_content = response, msg_timestamp = now_reply env\<rparr>"

definition error_message :: "run_env \<Rightarrow> pystr \<Rightarrow> turn" where
  "error_message env e =
     \<lparr>msg_role = lit ''assistant'', msg_content = error_msg e, msg_timestamp = now_reply env\<rparr>"

text \<open>
  The \<open>except\<close> branch of the query: the error is shown and appended to the log \<open>ms\<close> as
  an assistant message. Nothing is written to the files here.
\<close>

definition on_exception :: "run_env \<Rightarrow> pystr \<Rightarrow> world \<Rightarrow> turn list \<Rightarrow> world \<times> page_out" where
  "on_exception env e w ms =
     (w\<lparr>messages := Some (ms @ [error_message env e])\<rparr>,
      \<lparr>shown = ms, reply = None, errors = [error_msg e], raised = None\<rparr>)"

text \<open>
  The body of \<open>if prompt := st.chat_input(...)\<close>, the same in both pages but for the
  prompt given to the agent. \<open>ms\<close> is the log when the input arrives. In the \<open>try\<close>: the
  agent is constructed if the session has none, it runs (a completed run enters its
  memory), the answer is shown and appended, and the log is saved.
\<close>

definition process_query ::
  "config \<Rightarrow> run_env \<Rightarrow> (turn list \<Rightarrow> prompt) \<Rightarrow> pystr \<Rightarrow> turn list \<Rightarrow> world
     \<Rightarrow> world \<times> page_out" where
  "process_query cfg env mk_prompt p ms w =
     (let ms1 = ms @ [user_message env p];
          w1 = w\<lparr>messages := Some ms1\<rparr>
      in case (case agent w1 of
                 Some a \<Rightarrow> Inr (a, w1)
               | None \<Rightarrow>
                   (case build env of
                      Some e \<Rightarrow> Inl e
                    | None \<Rightarrow> Inr (\<lparr>memory = []\<rparr>, w1\<lparr>agent := Some \<lparr>memory = []\<rparr>\<rparr>))) of
           Inl e \<Rightarrow> on_exception env e w1 ms1
         | Inr (a, w2) \<Rightarrow>
             (case run env of
                Inl e \<Rightarrow> on_exception env e w2 ms1
              | Inr response \<Rightarrow>
                  (let w3 = w2\<lparr>agent := Some (a\<lparr>memory := memory a @ [(mk_prompt ms1, response)]\<rparr>)\<rparr>;
                       ms2 = ms1 @ [assistant_message env response];
                       (exn, fs) = save_agent_history (get_agent_id cfg (today env)) ms2 (files w3);
                       w4 = w3\<lparr>messages := Some ms2, files := fs\<rparr>
                   in case exn of
                        Some e \<Rightarrow>
                          (let (w5, out) = on_exception env e w4 ms2
                           in (w5, out\<lparr>shown := ms1, reply := Some response\<rparr>))
                      | None \<Rightarrow>
                          (w4, \<lparr>shown = ms1, reply = Some response, errors = [],
                                raised = None\<rparr>))))"

subsection \<open>The chat page\<close>

text \<open>What the user did to start this run of the chat page.\<close>

datatype event =
  Rerun
  | LoadHistory pystr
  | ClearChat
  | SaveHistory
  | Prompt pystr

text \<open>\<open>with chat_col\<close>: the log is initialised, shown, and the input, if any, processed.\<close>

definition chat_column :: "config \<Rightarrow> run_env \<Rightarrow> pystr option \<Rightarrow> world \<Rightarrow> world \<times> page_out" where
  "chat_column cfg env input w =
     (let ms = init_messages (chat_welcome cfg (now_welcome env)) w
      in case input of
           None \<Rightarrow> (w\<lparr>messages := Some ms\<rparr>,
                     \<lparr>shown = ms, reply = None, errors = [], raised = None\<rparr>)
         | Some p \<Rightarrow> process_query cfg env (\<lambda>_. ChatPrompt p) p ms w)"

text \<open>\<open>if len(st.session_state.messages) > 15\<close>, the last statement of the chat page.\<close>

definition keep_manageable :: "world \<Rightarrow> world" where
  "keep_manageable w =
     (case messages w of
        None \<Rightarrow> w
      | Some ms \<Rightarrow> if length ms > 15 then w\<lparr>messages := Some (last_n 15 ms)\<rparr> else w)"

definition chat_rest :: "config \<Rightarrow> run_env \<Rightarrow> pystr option \<Rightarrow> world \<Rightarrow> world \<times> page_out" where
  "chat_rest cfg env input w =
     (let (w', out) = chat_column cfg env input w in (keep_manageable w', out))"

definition attribute_error :: pystr where
  "attribute_error = lit ''st.session_state has no attribute messages''"

text \<open>
  One run of the chat page, with the configuration present. The buttons of the sidebar
  come first. \<open>st.rerun()\<close> ends the run and starts the script again at once, with no
  button pressed and no input. An exception outside the \<open>try\<close> of the query ends the run.
\<close>

definition chat_main :: "config \<Rightarrow> run_env \<Rightarrow> event \<Rightarrow> world \<Rightarrow> world \<times> page_out" where
  "chat_main cfg env ev w =
     (case ev of
        Rerun \<Rightarrow> chat_rest cfg env None w
      | Prompt p \<Rightarrow> chat_rest cfg env (Some p) w
      | LoadHistory selected \<Rightarrow>
          (case load_agent_history selected (files w) of
             Inl e \<Rightarrow> (w, \<lparr>shown = [], reply = None, errors = [], raised = Some e\<rparr>)
           | Inr ms \<Rightarrow> chat_rest cfg env None (w\<lparr>messages := Some ms\<rparr>))
      | ClearChat \<Rightarrow> chat_rest cfg env None (w\<lparr>messages := Some [], agent := None\<rparr>)
      | SaveHistory \<Rightarrow>
          (case messages w of
             None \<Rightarrow> (w, \<lparr>shown = [], reply = None, errors = [], raised = Some attribute_error\<rparr>)
           | Some ms \<Rightarrow>
               if ms \<noteq> [] then
                 (case save_agent_history (get_agent_id cfg (today env)) ms (files w) of
                    (Some e, fs) \<Rightarrow>
                      (w\<lparr>files := fs\<rparr>,
                       \<lparr>shown = [], reply = None, errors = [], raised = Some e\<rparr>)
                  | (None, fs) \<Rightarrow> chat_rest cfg env None (w\<lparr>files := fs\<rparr>))
               else chat_rest cfg env None w))"

subsection \<open>The document page\<close>

text \<open>
  The document column: the viewer of the selected document, when its file exists.
  \<open>selected\<close> is the position chosen in the select box.
\<close>

definition doc_column :: "config \<Rightarrow> doc_env \<Rightarrow> nat \<Rightarrow> world \<Rightarrow> world \<times> view option \<times> nat" where
  "doc_column cfg denv selected w =
     (let docs_info = get_document_info (vectorstores cfg)
      in if selected < length docs_info then
           (let path = fst (snd (docs_info ! selected))
            in if path_exists denv path then
                 (let (v, cache, calls) = display_content_viewer denv path (pdf_content w)
                  in (w\<lparr>pdf_content := cache\<rparr>, Some v, calls))
               else (w, None, 0))
         else (w, None, 0))"

text \<open>
  One run of the document page: the document column, then the chat column. The log is
  not shortened on this page, and the recent history goes into the prompt.
\<close>

definition doc_main ::
  "config \<Rightarrow> run_env \<Rightarrow> doc_env \<Rightarrow> nat \<Rightarrow> pystr option \<Rightarrow> world
     \<Rightarrow> world \<times> page_out \<times> view option" where
  "doc_main cfg env denv selected input w =
     (let (w1, v, calls) = doc_column cfg denv selected w;
          ms = init_messages (doc_welcome cfg (now_welcome env)) w1;
          (w2, out) =
            (case input of
               None \<Rightarrow> (w1\<lparr>messages := Some ms\<rparr>,
                         \<lparr>shown = ms, reply = None, errors = [], raised = None\<rparr>)
             | Some p \<Rightarrow>
                 process_query cfg env (\<lambda>ms1. DocPrompt (get_recent_history ms1) p) p ms w1)
      in (w2, out, v))"

text \<open>A sequence of runs of one page, each with its own environment.\<close>

fun chat_session :: "config \<Rightarrow> (run_env \<times> event) list \<Rightarrow> world \<Rightarrow> world" where
  "chat_session cfg [] w = w"
| "chat_session cfg ((env, ev) # rest) w = chat_session cfg rest (fst (chat_main cfg env ev w))"

fun doc_session ::
  "config \<Rightarrow> (run_env \<times> doc_env \<times> nat \<times> pystr option) list \<Rightarrow> world \<Rightarrow> world" where
  "doc_session cfg [] w = w"
| "doc_session cfg ((env, denv, selected, input) # rest) w =
     doc_session cfg rest (fst (doc_main cfg env denv selected input w))"

definition fresh :: world where
  "fresh = \<lparr>messages = None, agent = None, pdf_content = Map.empty, files = Map.empty\<rparr>"

section \<open>The reasoning loop\<close>

text \<open>
  The sources construct the agent with \<open>initialize_agent(..., max_iterations=3, ...)\<close> and
  call its \<open>run\<close>; the loop that \<open>run\<close> executes belongs to the agent library and is not in
  the sources. It is modelled from section 4.4 of the specification: per query, up to a
  fixed maximum of reasoning iterations, each of which may invoke the Evidence Aggregator
  tool with a sub-query or produce a final answer; exceeding the cap is not an error, the
  loop falls back to whatever partial answer it has accumulated, or to a generic message
  if none; an error of the model invocation is raised to the caller.
\<close>

text \<open>
  Modelled from the spec: what the model decides in one iteration, a final answer or a
  tool request. A request carries the sub-query and the draft of an answer the model has
  so far (empty: none).
\<close>

datatype decision = Final pystr | CallTool pystr pystr

text \<open>Modelled from the spec: the generic message, in the words of the agent library.\<close>

definition could_not_complete :: pystr where
  "could_not_complete = lit ''Agent stopped due to iteration limit or time limit.''"

text \<open>Modelled from the spec: the answer when the cap is reached.\<close>

definition fallback :: "pystr \<Rightarrow> pystr" where
  "fallback partial = (if partial = [] then could_not_complete else partial)"

text \<open>
  Modelled from the spec: the loop. \<open>agent_loop llm tool n partial obs\<close> runs at most \<open>n\<close>
  further iterations; in each the model sees the observations so far and decides. The
  result is the answer, or \<open>Inl\<close> the error the model raised, and the number of model
  invocations made.
\<close>

fun agent_loop ::
  "(pystr list \<Rightarrow> pystr + decision) \<Rightarrow> (pystr \<Rightarrow> pystr) \<Rightarrow> nat \<Rightarrow> pystr \<Rightarrow> pystr list
     \<Rightarrow> (pystr + pystr) \<times> nat" where
  "agent_loop llm tool 0 partial obs = (Inr (fallback partial), 0)"
| "agent_loop llm tool (Suc n) partial obs =
     (case llm obs of
        Inl e \<Rightarrow> (Inl e, 1)
      | Inr (Final answer) \<Rightarrow> (Inr answer, 1)
      | Inr (CallTool query draft) \<Rightarrow>
          (let (r, k) = agent_loop llm tool n (if draft = [] then partial else draft)
                          (obs @ [tool query])
           in (r, Suc k)))"

text \<open>The cap the sources pass to \<open>initialize_agent\<close>.\<close>

definition max_iterations :: nat where
  "max_iterations = 3"

text \<open>
  Modelled from the spec: one run of the agent of the pages, with \<open>search_documents\<close> as
  its only tool and nothing observed or drafted at the start.
\<close>

definition agent_run :: "config \<Rightarrow> (pystr list \<Rightarrow> pystr + decision) \<Rightarrow> (pystr + pystr) \<times> nat" where
  "agent_run cfg llm = agent_loop llm (search_documents cfg) max_iterations [] []"


section \<open>Example inputs\<close>

definition cfg_of :: "int \<Rightarrow> vectorstore list \<Rightarrow> config" where
  "cfg_of n stores = \<lparr>name = lit ''Tutor'', role = lit ''tutor'', style = lit ''Formal'',
     detail_level = lit ''Alto'', max_tokens = 500, context_window = n, vectorstores = stores\<rparr>"

definition store_of :: "string \<Rightarrow> pystr + pystr list \<Rightarrow> vectorstore" where
  "store_of t r = \<lparr>title = lit t, hash = lit t, retriever = (\<lambda>q. r)\<rparr>"

definition env_ok :: "string \<Rightarrow> run_env" where
  "env_ok r = \<lparr>today = lit ''20240101'', now_welcome = lit ''2024-01-01T09:00:00'',
     now_user = lit ''2024-01-01T09:01:00'', now_reply = lit ''2024-01-01T09:01:05'',
     build = None, run = Inr (lit r)\<rparr>"


definition cfg0 :: config where
  "cfg0 = cfg_of 2 [store_of ''S1'' (Inr [lit ''A''])]"

definition denv0 :: doc_env where
  "denv0 = \<lparr>path_exists = (\<lambda>p. True),
     read_pdf = (\<lambda>p. Inr [lit '' page one '', lit ''page two''])\<rparr>"

text \<open>The same documents after the file has changed on disk.\<close>

definition denv1 :: doc_env where
  "denv1 = \<lparr>path_exists = (\<lambda>p. True), read_pdf = (\<lambda>p. Inr [lit ''rewritten''])\<rparr>"

text \<open>The session after one answered query on the chat page.\<close>

definition w_agent :: world where
  "w_agent = fst (chat_main cfg0 (env_ok ''r'') (Prompt (lit ''q'')) fresh)"

text \<open>A model that asks for the tool in every iteration and drafts nothing.\<close>

definition always_tool :: "pystr list \<Rightarrow> pystr + decision" where
  "always_tool obs = Inr (CallTool (lit ''more'') [])"

text \<open>The scenario of the specification, with text beyond ASCII and characters to escape.\<close>

definition tutor_turns :: "turn list" where
  "tutor_turns =
     [\<lparr>msg_role = lit ''user'', msg_content = lit ''hi '' @ [191, 128512, 10, 34, 92] @ lit ''x'',
       msg_timestamp = lit ''2024-01-01T10:00:00.000001''\<rparr>,
      \<lparr>msg_role = lit ''assistant'', msg_content = lit ''hello'',
       msg_timestamp = lit ''2024-01-01T10:00:02.500000''\<rparr>]"


section \<open>Properties of search_documents\<close>

lemmas eval_defs = lit_def py_split.simps sep_mark_def strip_def is_space_def
  search_documents_def entry_def slice_to_def blank_line_def search_error_def Let_def
  cfg_of_def store_of_def

lemma py_split_nonempty: "py_split sep cur s \<noteq> []"
  by (induction sep cur s rule: py_split.induct) (subst py_split.simps, auto split: list.splits)

text \<open>A string that contains the separator splits into at least two pieces.\<close>

lemma py_split_two:
  "sep \<noteq> [] \<Longrightarrow> \<exists>x y zs. py_split sep cur (a @ sep @ b) = x # y # zs"
proof (induction a arbitrary: cur)
  case Nil
  obtain y zs where "py_split sep [] b = y # zs"
    using py_split_nonempty [of sep "[]" b] by (cases "py_split sep [] b") auto
  with Nil show ?case
    by (subst py_split.simps) simp
next
  case (Cons c a)
  show ?case
  proof (cases "prefix sep (c # a @ sep @ b)")
    case True
    obtain y zs where "py_split sep [] (drop (length sep) (c # a @ sep @ b)) = y # zs"
      using py_split_nonempty [of sep "[]"] by (meson neq_Nil_conv)
    with True Cons.prems show ?thesis
      by (subst py_split.simps) simp
  next
    case False
    with Cons.IH [OF Cons.prems, of "cur @ [c]"] show ?thesis
      by (subst py_split.simps) simp
  qed
qed

text \<open>
  The comprehension never raises on the entries the loop builds: every entry holds the
  separator, so the IndexError branch of \<open>seen_texts\<close> is not reached.
\<close>

lemma seen_texts_entry:
  "\<exists>x. seen_texts rs = Inr x \<Longrightarrow> \<exists>x. seen_texts (rs @ [entry s c]) = Inr x"
proof (induction rs)
  case Nil
  obtain x y zs where "py_split sep_mark [] (entry s c) = x # y # zs"
    using py_split_two [of sep_mark "[]" "lit ''['' @ s" "lit '' '' @ c"]
    by (auto simp: entry_def sep_mark_def lit_def)
  then show ?case by simp
next
  case (Cons r rs)
  then show ?case
    by (auto split: list.splits sum.splits)
qed

lemma add_docs_returns:
  "\<exists>x. seen_texts results = Inr x \<Longrightarrow>
   \<exists>rs. add_docs source docs results = Inr rs \<and> (\<exists>x. seen_texts rs = Inr x)"
proof (induction docs arbitrary: results)
  case Nil
  then show ?case by simp
next
  case (Cons d docs)
  from Cons.prems obtain seen where s: "seen_texts results = Inr seen" by blast
  let ?r = "if strip d \<notin> set seen then results @ [entry source (strip d)] else results"
  have "\<exists>x. seen_texts ?r = Inr x"
    using Cons.prems seen_texts_entry [of results source "strip d"] by simp
  from Cons.IH [OF this] show ?case
    using s by (simp add: Let_def)
qed

lemma scan_stores_returns:
  "\<forall>vs \<in> set stores. \<exists>docs. retriever vs q = Inr docs \<Longrightarrow>
   \<exists>x. seen_texts results = Inr x \<Longrightarrow>
   \<exists>rs. scan_stores stores q results = Inr rs \<and> (\<exists>x. seen_texts rs = Inr x)"
proof (induction stores arbitrary: results)
  case Nil
  then show ?case by simp
next
  case (Cons vs stores)
  from Cons.prems(1) obtain docs where d: "retriever vs q = Inr docs" by auto
  from add_docs_returns [OF Cons.prems(2), of "title vs" docs]
  obtain rs where r: "add_docs (title vs) docs results = Inr rs" "\<exists>x. seen_texts rs = Inr x"
    by blast
  from Cons.IH [OF _ r(2)] Cons.prems(1) show ?case
    using d r(1) by simp
qed

lemma scan_stores_append:
  "scan_stores (pre @ post) q results =
     (case scan_stores pre q results of Inl e \<Rightarrow> Inl e | Inr rs \<Rightarrow> scan_stores post q rs)"
  by (induction pre arbitrary: results) (auto split: sum.splits)

text \<open>
  Where neither a title nor a trimmed text holds \<open>]:\<close>, and every index returns, the loops
  compute the accepted list of the specification: each entry splits back into its title
  and its text, so the membership test compares the texts themselves.
\<close>

lemma sep_mark_eq: "sep_mark = [93, 58]"
  by (simp add: sep_mark_def lit_def)

lemma has_mark_Cons: "has_mark (x # s) \<longleftrightarrow> prefix sep_mark (x # s) \<or> has_mark s"
  by (simp add: has_mark_def sublist_Cons_right)

lemma py_split_no_mark: "\<not> has_mark s \<Longrightarrow> py_split sep_mark cur s = [cur @ s]"
proof (induction s arbitrary: cur)
  case Nil
  then show ?case by (subst py_split.simps) (simp add: sep_mark_eq)
next
  case (Cons x s)
  then have "\<not> prefix sep_mark (x # s)" "\<not> has_mark s"
    by (simp_all add: has_mark_Cons)
  with Cons.IH [of "cur @ [x]"] show ?case
    by (subst py_split.simps) simp
qed

lemma py_split_at_mark:
  "\<not> has_mark s \<Longrightarrow> py_split sep_mark cur (s @ sep_mark @ t) = (cur @ s) # py_split sep_mark [] t"
proof (induction s arbitrary: cur)
  case Nil
  then show ?case by (subst py_split.simps) (simp add: sep_mark_eq)
next
  case (Cons x s)
  then have n: "\<not> prefix sep_mark (x # s)" "\<not> has_mark s"
    by (simp_all add: has_mark_Cons)
  have "\<not> prefix sep_mark (x # s @ sep_mark @ t)"
  proof (cases s)
    case Nil
    then show ?thesis by (simp add: sep_mark_eq)
  next
    case (Cons y s')
    with n(1) show ?thesis by (simp add: sep_mark_eq)
  qed
  with Cons.IH [OF n(2), of "cur @ [x]"] show ?case
    by (subst py_split.simps) simp
qed

lemma py_split_entry:
  assumes "\<not> has_mark source" "\<not> has_mark text"
  shows "py_split sep_mark [] (entry source text) = [91 # source, 32 # text]"
proof -
  have a: "\<not> has_mark (91 # source)" "\<not> has_mark (32 # text)"
    using assms by (simp_all add: has_mark_Cons sep_mark_eq)
  have "entry source text = (91 # source) @ sep_mark @ (32 # text)"
    by (simp add: entry_def sep_mark_eq lit_def)
  then show ?thesis
    using py_split_at_mark [OF a(1), of "[]" "32 # text"] py_split_no_mark [OF a(2), of "[]"]
    by simp
qed

lemma hd_rstrip:
  "rev (dropWhile P (rev z)) \<noteq> [] \<Longrightarrow> hd (rev (dropWhile P (rev z))) = hd z"
  by (cases z) (auto simp: dropWhile_append split: if_splits)

lemma strip_strip: "strip (strip d) = strip d"
proof -
  define z where "z = dropWhile is_space d"
  define y where "y = rev (dropWhile is_space (rev z))"
  have y: "strip d = y" by (simp add: strip_def y_def z_def)
  have 1: "dropWhile is_space (rev y) = rev y" by (simp add: y_def)
  have 2: "dropWhile is_space y = y"
  proof (cases y)
    case Nil
    then show ?thesis by simp
  next
    case (Cons a y')
    then have "y \<noteq> []" by simp
    then have h: "hd y = hd z" unfolding y_def by (rule hd_rstrip)
    have "z \<noteq> []" using \<open>y \<noteq> []\<close> by (auto simp: y_def)
    then have "\<not> is_space (hd z)" unfolding z_def using hd_dropWhile by blast
    with h Cons show ?thesis by simp
  qed
  show ?thesis
    unfolding y by (subst strip_def) (simp only: 2 1 rev_rev_ident)
qed

lemma strip_space: "strip (32 # text) = strip text"
  by (simp add: strip_def is_space_def)

lemma seen_texts_entries:
  "clean acc \<Longrightarrow> seen_texts (map (\<lambda>(source, text). entry source text) acc) = Inr (map snd acc)"
proof (induction acc)
  case Nil
  then show ?case by simp
next
  case (Cons p acc)
  obtain source passage where p: "p = (source, passage)" by (cases p)
  with Cons.prems have c: "\<not> has_mark source" "\<not> has_mark passage" "strip passage = passage" "clean acc"
    by (simp_all add: clean_def)
  from Cons.IH [OF c(4)] py_split_entry [OF c(1,2)] p c(3) show ?case
    by (simp add: strip_space)
qed

lemma clean_snoc: "clean (acc @ [(source, text)]) \<longleftrightarrow>
    clean acc \<and> \<not> has_mark source \<and> \<not> has_mark text \<and> strip text = text"
  by (auto simp: clean_def)

lemma add_docs_refines:
  "clean acc \<Longrightarrow> \<not> has_mark source \<Longrightarrow> \<forall>doc \<in> set docs. \<not> has_mark (strip doc) \<Longrightarrow>
   add_docs source docs (map (\<lambda>(source, text). entry source text) acc)
     = Inr (map (\<lambda>(source, text). entry source text)
              (spec_accept acc (map (\<lambda>doc. (source, strip doc)) docs)))
   \<and> clean (spec_accept acc (map (\<lambda>doc. (source, strip doc)) docs))"
proof (induction docs arbitrary: acc)
  case Nil
  then show ?case by simp
next
  case (Cons d docs)
  let ?acc = "if strip d \<in> snd ` set acc then acc else acc @ [(source, strip d)]"
  have c: "clean ?acc"
    using Cons.prems by (simp add: clean_snoc strip_strip)
  have m: "(if strip d \<notin> set (map snd acc)
            then map (\<lambda>(source, text). entry source text) acc @ [entry source (strip d)]
            else map (\<lambda>(source, text). entry source text) acc)
           = map (\<lambda>(source, text). entry source text) ?acc"
    by simp
  from Cons.IH [OF c Cons.prems(2)] Cons.prems(3) show ?case
    by (simp add: seen_texts_entries [OF Cons.prems(1)] Let_def m del: set_map)
qed

lemma spec_accept_append: "spec_accept acc (xs @ ys) = spec_accept (spec_accept acc xs) ys"
  by (induction xs arbitrary: acc) auto

lemma scan_stores_refines:
  "clean acc \<Longrightarrow>
   \<forall>vs \<in> set stores. \<not> has_mark (title vs)
      \<and> (\<exists>docs. retriever vs q = Inr docs \<and> (\<forall>doc \<in> set docs. \<not> has_mark (strip doc))) \<Longrightarrow>
   scan_stores stores q (map (\<lambda>(source, text). entry source text) acc)
     = Inr (map (\<lambda>(source, text). entry source text) (spec_accept acc (retrieved stores q)))"
proof (induction stores arbitrary: acc)
  case Nil
  then show ?case by (simp add: retrieved_def)
next
  case (Cons vs stores)
  from Cons.prems(2) obtain docs where d: "\<not> has_mark (title vs)" "retriever vs q = Inr docs"
    "\<forall>doc \<in> set docs. \<not> has_mark (strip doc)" by auto
  let ?acc = "spec_accept acc (map (\<lambda>doc. (title vs, strip doc)) docs)"
  from add_docs_refines [OF Cons.prems(1) d(1,3)]
  have a: "add_docs (title vs) docs (map (\<lambda>(source, text). entry source text) acc)
             = Inr (map (\<lambda>(source, text). entry source text) ?acc)" "clean ?acc"
    by simp_all
  have r: "retrieved (vs # stores) q = map (\<lambda>doc. (title vs, strip doc)) docs @ retrieved stores q"
    by (simp add: retrieved_def d(2))
  from Cons.IH [OF a(2)] Cons.prems(2) show ?case
    by (simp add: d(2) a(1) r spec_accept_append)
qed

lemma spec_accept_texts:
  "distinct (map snd acc) \<Longrightarrow> distinct (map snd (spec_accept acc ps))
     \<and> set (map snd (spec_accept acc ps)) = set (map snd acc) \<union> set (map snd ps)"
  by (induction acc ps rule: spec_accept.induct) auto

lemma search_documents_dedups:
  assumes "\<forall>vs \<in> set (vectorstores cfg). \<not> has_mark (title vs)
      \<and> (\<exists>docs. retriever vs q = Inr docs \<and> (\<forall>doc \<in> set docs. \<not> has_mark (strip doc)))"
  shows "scan_stores (vectorstores cfg) q []
           = Inr (map (\<lambda>(source, text). entry source text)
                    (spec_accept [] (retrieved (vectorstores cfg) q)))"
    and "distinct (map snd (spec_accept [] (retrieved (vectorstores cfg) q)))"
    and "set (map snd (spec_accept [] (retrieved (vectorstores cfg) q)))
           = set (map snd (retrieved (vectorstores cfg) q))"
  using scan_stores_refines [of "[]" "vectorstores cfg" q] assms
    spec_accept_texts [of "[]" "retrieved (vectorstores cfg) q"]
  by (simp_all add: clean_def)

text \<open>
  C1 (deduplication). The test \<open>content not in [r.split(']:')[1].strip() ...]\<close> reads the
  accepted texts back out of the formatted entries, and the piece after the first \<open>]:\<close> is
  the whole text only when neither the title nor the text holds \<open>]:\<close> (the case of
  \<open>search_documents_dedups\<close>). One index titled \<open>T\<close> that returns the passage \<open>x]:y\<close>
  twice gives an output with two identical blocks: the text is compared with \<open>x\<close>, never
  found, and accepted again.
\<close>

theorem search_documents_repeats_text:
  "search_documents (cfg_of 5 [store_of ''T'' (Inr [lit ''x]:y'', lit ''x]:y''])]) (lit ''q'')
   = lit ''[T]: x]:y'' @ [10, 10] @ lit ''[T]: x]:y''"
  by (simp add: eval_defs)

text \<open>
  C2 (a failing index), as the code has it. The single \<open>try\<close> around both loops makes the
  first index that raises end the whole aggregation: the result is the diagnostic string
  alone, whatever the earlier indexes contributed and whatever the later ones would have.
\<close>

theorem search_documents_index_raises:
  assumes "vectorstores cfg = pre @ vs # post"
    and "\<forall>v \<in> set pre. \<exists>docs. retriever v q = Inr docs"
    and "retriever vs q = Inl e"
  shows "search_documents cfg q = search_error e"
proof -
  obtain rs where "scan_stores pre q [] = Inr rs"
    using scan_stores_returns [OF assms(2), of "[]"] by auto
  then have "scan_stores (vectorstores cfg) q [] = Inl e"
    using assms(1,3) by (simp add: scan_stores_append)
  then show ?thesis by (simp add: search_documents_def)
qed

theorem search_documents_index_raises_witness:
  "search_documents
     (cfg_of 5 [store_of ''S1'' (Inr [lit ''A'']), store_of ''S2'' (Inl (lit ''boom'')),
                store_of ''S3'' (Inr [lit ''B''])]) (lit ''q'')
   = search_error (lit ''boom'')"
  using search_documents_index_raises [of
      "cfg_of 5 [store_of ''S1'' (Inr [lit ''A'']), store_of ''S2'' (Inl (lit ''boom'')),
                store_of ''S3'' (Inr [lit ''B''])]"
      "[store_of ''S1'' (Inr [lit ''A''])]" "store_of ''S2'' (Inl (lit ''boom''))"
      "[store_of ''S3'' (Inr [lit ''B''])]" "lit ''q''" "lit ''boom''"]
  by (simp add: cfg_of_def store_of_def)

text \<open>
  The claim as stated fails: with the second of three indexes raising, the passage of the
  first index and that of the third are both absent from the result, which they are not
  when the failing index is left out of the configuration.
\<close>

theorem search_documents_index_raises_counterexample:
  "search_documents
     (cfg_of 5 [store_of ''S1'' (Inr [lit ''A'']), store_of ''S2'' (Inl (lit ''boom'')),
                store_of ''S3'' (Inr [lit ''B''])]) (lit ''q'')
   = lit ''Error al buscar: boom''
   \<and> search_documents
     (cfg_of 5 [store_of ''S1'' (Inr [lit ''A'']), store_of ''S3'' (Inr [lit ''B''])]) (lit ''q'')
   = lit ''[S1]: A'' @ [10, 10] @ lit ''[S3]: B''"
  by (simp add: eval_defs)

text \<open>
  C6 (budget). With a context window \<open>N \<ge> 0\<close>, the result is the diagnostic, the sentinel,
  or the first \<open>N\<close> accepted entries joined by blank lines: never more than \<open>N\<close> blocks, the
  earliest accepted ones.
\<close>

theorem search_documents_budget:
  assumes "0 \<le> context_window cfg"
  shows "case scan_stores (vectorstores cfg) q [] of
           Inl e \<Rightarrow> search_documents cfg q = search_error e
         | Inr results \<Rightarrow>
             if results = [] then search_documents cfg q = not_found
             else search_documents cfg q
                    = join blank_line (take (nat (context_window cfg)) results)
                  \<and> length (take (nat (context_window cfg)) results) \<le> nat (context_window cfg)"
  using assms by (simp add: search_documents_def slice_to_def split: sum.splits)

theorem search_documents_budget_witness:
  "(0::int) \<le> 2 \<and>
   search_documents
     (cfg_of 2 [store_of ''S1'' (Inr [lit ''A '', lit '' A'']), store_of ''S2'' (Inr [lit ''B'']),
                store_of ''S3'' (Inr [lit ''C''])]) (lit ''q'')
   = lit ''[S1]: A'' @ [10, 10] @ lit ''[S2]: B''"
  using search_documents_budget [of
      "cfg_of 2 [store_of ''S1'' (Inr [lit ''A '', lit '' A'']), store_of ''S2'' (Inr [lit ''B'']),
                store_of ''S3'' (Inr [lit ''C''])]" "lit ''q''"]
  by (simp add: eval_defs)


text \<open>
  The hypothesis of C6 matters only for a window that is no count: with \<open>-1\<close> the slice
  \<open>results[:-1]\<close> drops the last accepted entry and keeps the others.
\<close>

lemma search_documents_negative_window:
  "search_documents
     (cfg_of (- 1) [store_of ''S1'' (Inr [lit ''A'', lit ''B'', lit ''C''])]) (lit ''q'')
   = lit ''[S1]: A'' @ [10, 10] @ lit ''[S1]: B''"
  by (simp add: eval_defs)

section \<open>Properties of the session\<close>

lemmas query_defs = process_query_def on_exception_def Let_def

lemma process_query_shown:
  "shown (snd (process_query cfg env mk p ms w)) = ms @ [user_message env p]"
  by (simp add: query_defs split: option.split sum.split prod.split)


lemma process_query_pdf_content:
  "pdf_content (fst (process_query cfg env mk p ms w)) = pdf_content w"
  by (simp add: query_defs split: option.split sum.split prod.split)

lemma process_query_log:
  "\<exists>tl. messages (fst (process_query cfg env mk p ms w)) = Some (ms @ user_message env p # tl)
         \<and> tl \<noteq> []"
  by (simp add: query_defs split: option.split sum.split prod.split)

lemma process_query_keeps_agent:
  "agent w \<noteq> None \<Longrightarrow> agent (fst (process_query cfg env mk p ms w)) \<noteq> None"
  by (auto simp add: query_defs split: option.split sum.split prod.split)


lemma process_query_build_raises:
  assumes "agent w = None" and "build env = Some e"
  shows "messages (fst (process_query cfg env mk p ms w))
           = Some (ms @ [user_message env p, error_message env e])"
    and "files (fst (process_query cfg env mk p ms w)) = files w"
    and "agent (fst (process_query cfg env mk p ms w)) = None"
    and "snd (process_query cfg env mk p ms w)
           = \<lparr>shown = ms @ [user_message env p], reply = None, errors = [error_msg e],
              raised = None\<rparr>"
  using assms by (auto simp add: query_defs split: option.split sum.split prod.split)

lemma process_query_answers:
  assumes "run env = Inr r" and "agent w \<noteq> None \<or> build env = None"
  shows "reply (snd (process_query cfg env mk p ms w)) = Some r"
    and "files (fst (process_query cfg env mk p ms w))
           = snd (save_agent_history (get_agent_id cfg (today env))
                    (ms @ [user_message env p, assistant_message env r]) (files w))"
    and "agent (fst (process_query cfg env mk p ms w))
           = Some (case agent w of
                     None \<Rightarrow> \<lparr>memory = [(mk (ms @ [user_message env p]), r)]\<rparr>
                   | Some a \<Rightarrow> a\<lparr>memory := memory a @ [(mk (ms @ [user_message env p]), r)]\<rparr>)"
  using assms by (auto simp add: query_defs split: option.split sum.split prod.split)


lemma keep_manageable_frame:
  "agent (keep_manageable w) = agent w" "files (keep_manageable w) = files w"
  "pdf_content (keep_manageable w) = pdf_content w"
  "messages (keep_manageable w)
     = map_option (\<lambda>ms. if 15 < length ms then last_n 15 ms else ms) (messages w)"
  by (simp_all add: keep_manageable_def split: option.split)

lemma chat_rest_fst: "fst (chat_rest cfg env input w) = keep_manageable (fst (chat_column cfg env input w))"
  by (simp add: chat_rest_def split: prod.split)

lemma chat_rest_snd: "snd (chat_rest cfg env input w) = snd (chat_column cfg env input w)"
  by (simp add: chat_rest_def split: prod.split)

lemma chat_column_idle:
  "chat_column cfg env None w =
     (w\<lparr>messages := Some (init_messages (chat_welcome cfg (now_welcome env)) w)\<rparr>,
      \<lparr>shown = init_messages (chat_welcome cfg (now_welcome env)) w, reply = None, errors = [],
       raised = None\<rparr>)"
  by (simp add: chat_column_def Let_def)

lemma chat_column_input:
  "chat_column cfg env (Some p) w =
     process_query cfg env (\<lambda>_. ChatPrompt p) p (init_messages (chat_welcome cfg (now_welcome env)) w) w"
  by (simp add: chat_column_def Let_def)

lemma doc_column_frame:
  "messages (fst (doc_column cfg denv sel w)) = messages w"
  "agent (fst (doc_column cfg denv sel w)) = agent w"
  "files (fst (doc_column cfg denv sel w)) = files w"
  by (simp_all add: doc_column_def Let_def split: prod.split)

lemma doc_main_idle:
  "fst (doc_main cfg env denv sel None w) =
     (fst (doc_column cfg denv sel w))
       \<lparr>messages := Some (init_messages (doc_welcome cfg (now_welcome env)) w)\<rparr>"
  "fst (snd (doc_main cfg env denv sel None w)) =
     \<lparr>shown = init_messages (doc_welcome cfg (now_welcome env)) w, reply = None, errors = [],
      raised = None\<rparr>"
  by (simp_all add: doc_main_def Let_def init_messages_def doc_column_frame case_prod_beta)

lemma doc_main_input:
  "fst (doc_main cfg env denv sel (Some p) w) =
     fst (process_query cfg env (\<lambda>ms1. DocPrompt (get_recent_history ms1) p) p
            (init_messages (doc_welcome cfg (now_welcome env)) w) (fst (doc_column cfg denv sel w)))"
  "fst (snd (doc_main cfg env denv sel (Some p) w)) =
     snd (process_query cfg env (\<lambda>ms1. DocPrompt (get_recent_history ms1) p) p
            (init_messages (doc_welcome cfg (now_welcome env)) w) (fst (doc_column cfg denv sel w)))"
  by (simp_all add: doc_main_def Let_def init_messages_def doc_column_frame case_prod_beta)

text \<open>
  C9 (welcome message). When the key \<open>messages\<close> is absent, a run of either page sets the
  log to exactly one message, the welcome of the assistant with the time of the run,
  before any input is processed: the messages shown in that run start with it and are
  not empty.
\<close>

theorem welcome_when_uninitialized:
  assumes "messages w = None"
  shows "messages (fst (chat_main cfg env Rerun w)) = Some [chat_welcome cfg (now_welcome env)]
    \<and> shown (snd (chat_main cfg env Rerun w)) = [chat_welcome cfg (now_welcome env)]
    \<and> shown (snd (chat_main cfg env (Prompt p) w))
        = [chat_welcome cfg (now_welcome env), user_message env p]
    \<and> messages (fst (doc_main cfg env denv sel None w)) = Some [doc_welcome cfg (now_welcome env)]
    \<and> shown (fst (snd (doc_main cfg env denv sel None w))) = [doc_welcome cfg (now_welcome env)]
    \<and> shown (fst (snd (doc_main cfg env denv sel (Some p) w)))
        = [doc_welcome cfg (now_welcome env), user_message env p]
    \<and> msg_role (chat_welcome cfg (now_welcome env)) = lit ''assistant''
    \<and> msg_timestamp (chat_welcome cfg (now_welcome env)) = now_welcome env
    \<and> msg_role (doc_welcome cfg (now_welcome env)) = lit ''assistant''
    \<and> msg_timestamp (doc_welcome cfg (now_welcome env)) = now_welcome env"
proof -
  have i: "init_messages t w = [t]" for t
    using assms by (simp add: init_messages_def)
  show ?thesis
    by (simp add: chat_main_def chat_rest_fst chat_rest_snd chat_column_idle chat_column_input
        keep_manageable_frame doc_main_idle doc_main_input process_query_shown i
        chat_welcome_def doc_welcome_def)
qed

theorem welcome_when_uninitialized_witness:
  "messages fresh = None
   \<and> shown (snd (chat_main cfg0 (env_ok ''r'') Rerun fresh))
       = [chat_welcome cfg0 (lit ''2024-01-01T09:00:00'')]
   \<and> shown (fst (snd (doc_main cfg0 (env_ok ''r'') denv0 0 None fresh)))
       = [doc_welcome cfg0 (lit ''2024-01-01T09:00:00'')]"
  using welcome_when_uninitialized [of fresh cfg0 "env_ok ''r''" "[]" denv0 0]
  by (simp add: fresh_def env_ok_def)

text \<open>
  The condition is the absence of the key. The clear button assigns the empty list and
  leaves the key in place: the run that follows adds no welcome and shows no message.
\<close>

lemma clear_chat_shows_nothing:
  "messages (fst (chat_main cfg0 (env_ok ''r'') Rerun fresh)) \<noteq> None
   \<and> shown (snd (chat_main cfg0 (env_ok ''r'') ClearChat
               (fst (chat_main cfg0 (env_ok ''r'') Rerun fresh)))) = []"
  by (simp add: chat_main_def chat_rest_fst chat_rest_snd chat_column_idle keep_manageable_frame
      init_messages_def fresh_def)


lemma chat_main_agent:
  "agent (fst (chat_main cfg env Rerun w)) = agent w"
  "agent (fst (chat_main cfg env (LoadHistory sel) w)) = agent w"
  "agent (fst (chat_main cfg env SaveHistory w)) = agent w"
  "agent (fst (chat_main cfg env ClearChat w)) = None"
  by (simp_all add: chat_main_def chat_rest_fst chat_column_idle keep_manageable_frame
      split: option.split sum.split prod.split)

lemma chat_main_prompt:
  "fst (chat_main cfg env (Prompt p) w) =
     keep_manageable (fst (process_query cfg env (\<lambda>_. ChatPrompt p) p
        (init_messages (chat_welcome cfg (now_welcome env)) w) w))"
  "snd (chat_main cfg env (Prompt p) w) =
     snd (process_query cfg env (\<lambda>_. ChatPrompt p) p
        (init_messages (chat_welcome cfg (now_welcome env)) w) w)"
  by (simp_all add: chat_main_def chat_rest_fst chat_rest_snd chat_column_input)

lemma chat_main_load:
  "files (fst (chat_main cfg env (LoadHistory sel) w)) = files w"
  "pdf_content (fst (chat_main cfg env (LoadHistory sel) w)) = pdf_content w"
  "messages (fst (chat_main cfg env (LoadHistory sel) w)) =
     (case load_agent_history sel (files w) of
        Inl e \<Rightarrow> messages w
      | Inr ms \<Rightarrow> Some (if 15 < length ms then last_n 15 ms else ms))"
  by (simp_all add: chat_main_def chat_rest_fst chat_column_idle keep_manageable_frame
      init_messages_def split: option.split sum.split prod.split)

text \<open>
  C10 (loading a history). Loading replaces the log (shortened to its last 15 messages by
  the end of the run) and nothing else: the agent with its memory, the files and the page
  cache are as before. No run of either page removes an agent except the one started by
  the clear button; after it, the next answered query builds a new agent, whose memory
  then holds that query alone.
\<close>

theorem load_history_keeps_agent:
  "agent (fst (chat_main cfg env (LoadHistory sel) w)) = agent w
   \<and> files (fst (chat_main cfg env (LoadHistory sel) w)) = files w
   \<and> pdf_content (fst (chat_main cfg env (LoadHistory sel) w)) = pdf_content w
   \<and> messages (fst (chat_main cfg env (LoadHistory sel) w)) =
       (case load_agent_history sel (files w) of
          Inl e \<Rightarrow> messages w
        | Inr ms \<Rightarrow> Some (if 15 < length ms then last_n 15 ms else ms))
   \<and> (agent w \<noteq> None \<and> agent (fst (chat_main cfg env ev w)) = None \<longrightarrow> ev = ClearChat)
   \<and> (agent w \<noteq> None \<longrightarrow> agent (fst (doc_main cfg env denv n input w)) \<noteq> None)
   \<and> agent (fst (chat_main cfg env ClearChat w)) = None
   \<and> (build env2 = None \<and> run env2 = Inr r \<longrightarrow>
        agent (fst (chat_main cfg env2 (Prompt p) (fst (chat_main cfg env ClearChat w))))
          = Some \<lparr>memory = [(ChatPrompt p, r)]\<rparr>)"
proof -
  have only_clear: "ev = ClearChat" if "agent w \<noteq> None" "agent (fst (chat_main cfg env ev w)) = None"
  proof (cases ev)
    case (Prompt q)
    with that show ?thesis
      using process_query_keeps_agent [of w cfg env "\<lambda>_. ChatPrompt q" q
          "init_messages (chat_welcome cfg (now_welcome env)) w"]
      by (simp add: chat_main_prompt keep_manageable_frame)
  qed (use that in \<open>simp_all add: chat_main_agent\<close>)
  have doc: "agent (fst (doc_main cfg env denv n input w)) \<noteq> None" if "agent w \<noteq> None"
  proof (cases input)
    case None
    with that show ?thesis by (simp add: doc_main_idle doc_column_frame)
  next
    case (Some q)
    with that show ?thesis
      by (simp add: doc_main_input process_query_keeps_agent doc_column_frame)
  qed
  have rebuilt: "agent (fst (chat_main cfg env2 (Prompt p) (fst (chat_main cfg env ClearChat w))))
          = Some \<lparr>memory = [(ChatPrompt p, r)]\<rparr>" if "build env2 = None" "run env2 = Inr r"
    using that
    by (simp add: chat_main_prompt keep_manageable_frame process_query_answers chat_main_agent)
  show ?thesis
    using only_clear doc rebuilt by (simp add: chat_main_agent chat_main_load)
qed


lemma agent_w_agent: "agent w_agent = Some \<lparr>memory = [(ChatPrompt (lit ''q''), lit ''r'')]\<rparr>"
  by (simp add: w_agent_def chat_main_prompt keep_manageable_frame process_query_answers
      env_ok_def fresh_def)

theorem load_history_keeps_agent_witness:
  "agent w_agent \<noteq> None
   \<and> agent (fst (chat_main cfg0 (env_ok ''r'') ClearChat w_agent)) = None
   \<and> build (env_ok ''s'') = None \<and> run (env_ok ''s'') = Inr (lit ''s'')
   \<and> agent (fst (chat_main cfg0 (env_ok ''r'') (LoadHistory (lit ''agent_Tutor_20231231'')) w_agent))
       = Some \<lparr>memory = [(ChatPrompt (lit ''q''), lit ''r'')]\<rparr>
   \<and> agent (fst (doc_main cfg0 (env_ok ''r'') denv0 0 None w_agent)) \<noteq> None
   \<and> agent (fst (chat_main cfg0 (env_ok ''s'') (Prompt (lit ''again''))
                  (fst (chat_main cfg0 (env_ok ''r'') ClearChat w_agent))))
       = Some \<lparr>memory = [(ChatPrompt (lit ''again''), lit ''s'')]\<rparr>"
  using load_history_keeps_agent [of cfg0 "env_ok ''r''" "lit ''agent_Tutor_20231231''" w_agent
      ClearChat denv0 0 None "env_ok ''s''" "lit ''s''" "lit ''again''"]
  by (simp add: agent_w_agent) (simp add: env_ok_def)

subsection \<open>Errors of the model\<close>






subsection \<open>The length of the log\<close>

lemma doc_main_grows:
  "\<exists>ms'. messages (fst (doc_main cfg env denv sel (Some p) w)) = Some ms'
     \<and> (case messages w of None \<Rightarrow> 1 | Some ms \<Rightarrow> length ms) + 2 \<le> length ms'"
proof -
  obtain tl where "messages (fst (doc_main cfg env denv sel (Some p) w))
      = Some (init_messages (doc_welcome cfg (now_welcome env)) w @ user_message env p # tl)"
    and "tl \<noteq> []"
    using process_query_log unfolding doc_main_input by blast
  then show ?thesis
    by (cases tl) (auto simp: init_messages_def split: option.split)
qed

lemma doc_session_grows:
  "runs \<noteq> [] \<Longrightarrow> \<forall>x \<in> set runs. snd (snd (snd x)) \<noteq> None \<Longrightarrow>
   \<exists>ms'. messages (doc_session cfg runs w) = Some ms'
     \<and> (case messages w of None \<Rightarrow> 1 | Some ms \<Rightarrow> length ms) + 2 * length runs \<le> length ms'"
proof (induction runs arbitrary: w)
  case Nil
  then show ?case by simp
next
  case (Cons x runs)
  obtain env denv sel input where x: "x = (env, denv, sel, input)" by (cases x) auto
  with Cons.prems(2) obtain p where p: "input = Some p" by auto
  from doc_main_grows [of cfg env denv sel p w]
  obtain ms1 where m: "messages (fst (doc_main cfg env denv sel (Some p) w)) = Some ms1"
    "(case messages w of None \<Rightarrow> 1 | Some ms \<Rightarrow> length ms) + 2 \<le> length ms1" by blast
  show ?case
  proof (cases "runs = []")
    case True
    with m x p show ?thesis by simp
  next
    case False
    with Cons.IH [of "fst (doc_main cfg env denv sel (Some p) w)"] Cons.prems
    obtain ms' where "messages (doc_session cfg runs (fst (doc_main cfg env denv sel (Some p) w))) = Some ms'"
      "length ms1 + 2 * length runs \<le> length ms'"
      using m(1) by auto
    with m(2) x p show ?thesis by simp
  qed
qed

text \<open>
  C3 (memory capping). The document page has no counterpart of \<open>keep_manageable\<close>: every
  query adds at least two messages and none is ever dropped. Eight queries in a new
  session leave more than 15 messages in the log.
\<close>

theorem doc_page_log_not_capped:
  "\<exists>ms. messages (doc_session cfg0 (replicate 8 (env_ok ''r'', denv0, 0, Some (lit ''q''))) fresh)
          = Some ms \<and> 15 < length ms"
  using doc_session_grows [of "replicate 8 (env_ok ''r'', denv0, 0, Some (lit ''q''))" cfg0 fresh]
  by (auto simp: fresh_def)

text \<open>
  On the chat page the claim holds: every run that ends normally leaves at most 15
  messages, and an answered query saves the log before it is shortened, so with 15
  messages in the log the file receives 17.
\<close>

lemma chat_main_capped:
  assumes "raised (snd (chat_main cfg env ev w)) = None"
  shows "\<exists>ms. messages (fst (chat_main cfg env ev w)) = Some ms \<and> length ms \<le> 15"
proof -
  have k: "\<exists>ms. messages (keep_manageable v) = Some ms \<and> length ms \<le> 15" if "messages v \<noteq> None" for v
  proof -
    from that obtain y where "messages v = Some y" by auto
    then show ?thesis by (cases "15 < length y") (simp_all add: keep_manageable_frame last_n_def)
  qed
  have c: "messages (fst (chat_column cfg env input v)) \<noteq> None" for input v
  proof (cases input)
    case None
    then show ?thesis by (simp add: chat_column_idle)
  next
    case (Some q)
    then show ?thesis
      using process_query_log [of cfg env "\<lambda>_. ChatPrompt q" q
          "init_messages (chat_welcome cfg (now_welcome env)) v" v]
      by (auto simp: chat_column_input)
  qed
  have r: "\<exists>ms. messages (fst (chat_rest cfg env input v)) = Some ms \<and> length ms \<le> 15" for input v
    unfolding chat_rest_fst using k c by blast
  show ?thesis
    using assms r
    by (cases ev) (auto simp: chat_main_def split: option.splits sum.splits prod.splits if_splits)
qed

lemma chat_main_saves_before_cap:
  assumes "run env = Inr r" and "agent w \<noteq> None \<or> build env = None"
  shows "files (fst (chat_main cfg env (Prompt p) w))
           = snd (save_agent_history (get_agent_id cfg (today env))
                    (init_messages (chat_welcome cfg (now_welcome env)) w
                       @ [user_message env p, assistant_message env r]) (files w))"
  by (simp add: chat_main_prompt keep_manageable_frame process_query_answers [OF assms])

section \<open>Properties of the pager\<close>

lemma viewer_keeps_cached:
  "cache p = Some pages \<Longrightarrow> fst (snd (display_content_viewer env q cache)) p = Some pages"
  by (auto simp: display_content_viewer_def Let_def split: option.split)

lemma lookups_keep_cached:
  "cache p = Some pages \<Longrightarrow> lookups calls cache p = Some pages"
proof (induction calls arbitrary: cache)
  case Nil
  then show ?case by simp
next
  case (Cons c calls)
  obtain env q where c: "c = (env, q)" by (cases c)
  from Cons.prems have "fst (snd (display_content_viewer env q cache)) p = Some pages"
    by (rule viewer_keeps_cached)
  with Cons.IH [of "fst (snd (display_content_viewer env q cache))"] c show ?case by simp
qed

lemma viewer_cached:
  "cache p = Some pages \<Longrightarrow> p \<noteq> [] \<Longrightarrow> path_exists env p \<Longrightarrow>
   display_content_viewer env p cache = (view_of pages, cache, 0)"
  by (simp add: display_content_viewer_def)

lemma viewer_fills:
  "p \<noteq> [] \<Longrightarrow> path_exists env p \<Longrightarrow> display_content_viewer env p cache = (v, cache', k) \<Longrightarrow>
   \<exists>pages. cache' p = Some pages \<and> v = view_of pages"
  by (auto simp: display_content_viewer_def Let_def split: option.splits)

lemma viewer_calls:
  "snd (snd (display_content_viewer env p cache)) \<le> (if cache p = None then 1 else 0)"
  "snd (snd (display_content_viewer env p cache)) = Suc 0 \<Longrightarrow>
     fst (snd (display_content_viewer env p cache)) p \<noteq> None"
  by (auto simp: display_content_viewer_def Let_def split: option.splits if_splits)

lemma extractions_bound:
  "extractions p calls cache \<le> (if cache p = None then 1 else 0)"
proof (induction calls arbitrary: cache)
  case Nil
  then show ?case by simp
next
  case (Cons c calls)
  obtain env q where c: "c = (env, q)" by (cases c)
  let ?r = "display_content_viewer env q cache"
  show ?case
  proof (cases "cache p")
    case (Some pages)
    then have "fst (snd ?r) p = Some pages" by (rule viewer_keeps_cached)
    with Cons.IH [of "fst (snd ?r)"] have "extractions p calls (fst (snd ?r)) = 0" by simp
    moreover have "q = p \<Longrightarrow> snd (snd ?r) = 0"
      using viewer_calls(1) [of env p cache] Some by simp
    ultimately show ?thesis using c Some by simp
  next
    case None
    show ?thesis
    proof (cases "q = p \<and> snd (snd ?r) = 1")
      case True
      then have "fst (snd ?r) p \<noteq> None" using viewer_calls(2) [of env p cache] by auto
      with Cons.IH [of "fst (snd ?r)"] have "extractions p calls (fst (snd ?r)) = 0" by simp
      with True c None show ?thesis by auto
    next
      case False
      then have "(if q = p then snd (snd ?r) else 0) = 0"
        using viewer_calls(1) [of env p cache] None by auto
      moreover have "extractions p calls (fst (snd ?r)) \<le> 1"
        using Cons.IH [of "fst (snd ?r)"] by (simp split: if_splits)
      ultimately show ?thesis using c None by simp
    qed
  qed
qed

text \<open>
  C8 (pager caching). From the empty cache of a new session, any sequence of calls of the
  viewer extracts a given path at most once. After a first call for an existing path,
  a later call for it, whatever was viewed in between and whatever the file then holds,
  shows what the first call showed and extracts nothing.
\<close>

theorem pager_extracts_once:
  "extractions p calls Map.empty \<le> 1
   \<and> (p \<noteq> [] \<and> path_exists env1 p \<and> path_exists env2 p
        \<and> display_content_viewer env1 p cache = (v, cache1, k) \<longrightarrow>
      display_content_viewer env2 p (lookups calls cache1) = (v, lookups calls cache1, 0))"
proof -
  have "display_content_viewer env2 p (lookups calls cache1) = (v, lookups calls cache1, 0)"
    if "p \<noteq> []" "path_exists env1 p" "path_exists env2 p"
      "display_content_viewer env1 p cache = (v, cache1, k)"
  proof -
    from viewer_fills [OF that(1,2,4)] obtain pages where
      "cache1 p = Some pages" "v = view_of pages" by blast
    then show ?thesis
      using lookups_keep_cached [of cache1 p pages calls] viewer_cached that(1,3) by simp
  qed
  then show ?thesis
    using extractions_bound [of p calls Map.empty] by simp
qed

theorem pager_extracts_once_witness:
  "lit ''doc.pdf'' \<noteq> [] \<and> path_exists denv0 (lit ''doc.pdf'') \<and> path_exists denv1 (lit ''doc.pdf'')
   \<and> snd (snd (display_content_viewer denv0 (lit ''doc.pdf'') Map.empty)) = 1
   \<and> fst (display_content_viewer denv1 (lit ''doc.pdf'')
           (lookups [(denv1, lit ''other.pdf'')]
              (fst (snd (display_content_viewer denv0 (lit ''doc.pdf'') Map.empty)))))
       = fst (display_content_viewer denv0 (lit ''doc.pdf'') Map.empty)
   \<and> snd (snd (display_content_viewer denv1 (lit ''doc.pdf'')
           (lookups [(denv1, lit ''other.pdf'')]
              (fst (snd (display_content_viewer denv0 (lit ''doc.pdf'') Map.empty)))))) = 0
   \<and> fst (display_content_viewer denv0 (lit ''doc.pdf'') Map.empty)
       = Pages [\<lparr>page_num = 1, content = lit ''page one'', preview = lit ''page one''\<rparr>,
                \<lparr>page_num = 2, content = lit ''page two'', preview = lit ''page two''\<rparr>]"
proof -
  obtain v c k where d: "display_content_viewer denv0 (lit ''doc.pdf'') Map.empty = (v, c, k)"
    by (cases "display_content_viewer denv0 (lit ''doc.pdf'') Map.empty")
  have e: "path_exists denv0 (lit ''doc.pdf'')" "path_exists denv1 (lit ''doc.pdf'')"
    "lit ''doc.pdf'' \<noteq> []"
    by (simp_all add: denv0_def denv1_def lit_def)
  have k: "k = 1" and v: "v = Pages [\<lparr>page_num = 1, content = lit ''page one'', preview = lit ''page one''\<rparr>,
                \<lparr>page_num = 2, content = lit ''page two'', preview = lit ''page two''\<rparr>]"
    using d
    by (auto simp add: display_content_viewer_def denv0_def lit_def extract_pdf_content_def
        enumerate_eq_zip page_of_def view_of_def strip_def is_space_def Let_def)
  show ?thesis
    using pager_extracts_once [of "lit ''doc.pdf''" "[(denv1, lit ''other.pdf'')]" denv0 denv1
        Map.empty v c k] d e k v
    by simp
qed


section \<open>Properties of the reasoning loop\<close>

lemma agent_loop_bound: "snd (agent_loop llm tool n partial obs) \<le> n"
  by (induction n arbitrary: partial obs)
    (auto simp: Let_def case_prod_beta le_SucI split: sum.split decision.split)

lemma fallback_nonempty: "fallback partial \<noteq> []"
  by (simp add: fallback_def could_not_complete_def lit_def)

lemma agent_loop_always_tool:
  "\<forall>obs. \<exists>q d. llm obs = Inr (CallTool q d) \<Longrightarrow>
   \<exists>a. agent_loop llm tool n partial obs = (Inr a, n) \<and> a \<noteq> []"
proof (induction n arbitrary: partial obs)
  case 0
  then show ?case by (simp add: fallback_nonempty)
next
  case (Suc n)
  from Suc.prems obtain q d where l: "llm obs = Inr (CallTool q d)" by blast
  from Suc.IH [OF Suc.prems, of "if d = [] then partial else d" "obs @ [tool q]"]
  obtain a where "agent_loop llm tool n (if d = [] then partial else d) (obs @ [tool q]) = (Inr a, n)"
    "a \<noteq> []" by blast
  with l show ?case by simp
qed

text \<open>
  C7 (iteration bound). A run makes at most \<open>max_iterations = 3\<close> model invocations.
  Against a model that requests the tool in every iteration it makes exactly that many
  and returns an answer, the fallback, which is not empty.
\<close>

theorem agent_run_bounded:
  "snd (agent_run cfg llm) \<le> max_iterations \<and> max_iterations = 3
   \<and> ((\<forall>obs. \<exists>q d. llm obs = Inr (CallTool q d)) \<longrightarrow>
        (\<exists>a. agent_run cfg llm = (Inr a, max_iterations) \<and> a \<noteq> []))"
  using agent_loop_bound [of llm "search_documents cfg" max_iterations "[]" "[]"]
    agent_loop_always_tool [of llm "search_documents cfg" max_iterations "[]" "[]"]
  by (auto simp: agent_run_def max_iterations_def)

theorem agent_run_bounded_witness:
  "always_tool [] = Inr (CallTool (lit ''more'') [])
   \<and> agent_run cfg0 always_tool = (Inr could_not_complete, 3)"
proof -
  have "\<forall>obs. \<exists>q d. always_tool obs = Inr (CallTool q d)"
    by (simp add: always_tool_def)
  with agent_run_bounded [of cfg0 always_tool]
  obtain a where "agent_run cfg0 always_tool = (Inr a, max_iterations)" by blast
  moreover have "fst (agent_run cfg0 always_tool) = Inr could_not_complete"
    by (simp add: agent_run_def max_iterations_def always_tool_def eval_nat_numeral fallback_def)
  ultimately show ?thesis
    by (simp add: max_iterations_def always_tool_def)
qed


section \<open>Properties of the session files\<close>




























lemma plain_lit [simp]:
  "\<forall>x \<in> set (lit ''role''). plain x" "\<forall>x \<in> set (lit ''content''). plain x"
  "\<forall>x \<in> set (lit ''timestamp''). plain x"
  by (simp_all add: lit_def plain_def)









subsection \<open>Saving, then loading\<close>


















text \<open>
  The hypothesis on the text is needed as well: the codec refuses a lone surrogate, which
  a Python string can hold. The save then raises in the middle of the writing and leaves
  the chunks written before in the file.
\<close>

lemma save_refuses_surrogate:
  "save_agent_history (lit ''k'')
     [\<lparr>msg_role = lit ''user'', msg_content = [55357], msg_timestamp = []\<rparr>] Map.empty
   = (Some encode_error,
      [lit ''data'' \<mapsto> Dir, lit ''data/chat_history'' \<mapsto> Dir,
       lit ''data/chat_history/k.json''
         \<mapsto> File (lit ''['' @ [10] @ lit ''  {'' @ [10] @ lit ''    ''
                    @ json_string (lit ''role'') @ lit '': '' @ json_string (lit ''user'')
                    @ lit '','' @ [10] @ lit ''    '' @ json_string (lit ''content'')
                    @ lit '': '')])"
proof -
  have m: "makedirs_chat_history Map.empty
             = (None, [lit ''data'' \<mapsto> Dir, lit ''data/chat_history'' \<mapsto> Dir])"
    by (simp add: makedirs_chat_history_def chat_history_dir_def mkdir_def dirname_def
        dir_exists_def is_file_def path_join_def Let_def lit_def)
  have h: "history_path (lit ''k'') = lit ''data/chat_history/k.json''"
    by (simp add: history_path_def chat_history_dir_def path_join_def lit_def)
  have o: "open_for_writing (lit ''data/chat_history/k.json'')
             [lit ''data'' \<mapsto> Dir, lit ''data/chat_history'' \<mapsto> Dir] = None"
    by (simp add: open_for_writing_def path_error_def dirname_def dir_exists_def is_file_def
        lit_def)
  have w: "write_chunks
             (iterencode [\<lparr>msg_role = lit ''user'', msg_content = [55357], msg_timestamp = []\<rparr>]) []
           = (Some encode_error,
              lit ''['' @ [10] @ lit ''  {'' @ [10] @ lit ''    ''
                @ json_string (lit ''role'') @ lit '': '' @ json_string (lit ''user'')
                @ lit '','' @ [10] @ lit ''    '' @ json_string (lit ''content'')
                @ lit '': '')"
    by (simp add: iterencode_def turn_chunks_def json_string_def escape_char_def utf8_char_def
        item_sep_def lit_def)
  show ?thesis
    by (simp add: save_agent_history_def m h o w Let_def)
qed

text \<open>
  So are the hypotheses on the file system: with a regular file named \<open>data\<close> the
  directory cannot be made, and with a directory under the name of the session file the
  file cannot be opened. Both saves raise and write nothing.
\<close>

lemma save_needs_directory:
  "save_agent_history (lit ''k'') tutor_turns [lit ''data'' \<mapsto> File []]
     = (Some not_a_directory_error, [lit ''data'' \<mapsto> File []])"
  by (simp add: save_agent_history_def makedirs_chat_history_def chat_history_dir_def mkdir_def
      dirname_def dir_exists_def is_file_def missing_directory_def path_join_def Let_def lit_def)

lemma save_needs_file_name:
  "save_agent_history (lit ''k'') tutor_turns [lit ''data/chat_history/k.json'' \<mapsto> Dir]
     = (Some is_a_directory_error,
        [lit ''data/chat_history/k.json'' \<mapsto> Dir, lit ''data'' \<mapsto> Dir,
         lit ''data/chat_history'' \<mapsto> Dir])"
  by (simp add: save_agent_history_def makedirs_chat_history_def chat_history_dir_def mkdir_def
      history_path_def open_for_writing_def path_error_def
      dirname_def dir_exists_def is_file_def missing_directory_def path_join_def Let_def lit_def)

end
